theory Spec2Isabelle
  imports Complex_Main
begin

section \<open>Numbers\<close>

text \<open>
  The engine computes with JavaScript numbers. They are modelled as real numbers, so
  every identity below is exact where the running code is exact up to rounding. The
  real division stands for the division of JavaScript wherever the divisor is not
  zero: the theorems about values that pass through a division by the scale assume a
  positive scale or concern the reachable states of options with a positive minimal
  scale. The one division whose divisor a gesture can make zero (the start distance of
  a pinch) is modelled with the non-finite results JavaScript gives, see \<open>jsnum\<close>
  below.
\<close>

text \<open>\<open>a % b\<close> of JavaScript: the remainder has the sign of the dividend (the quotient
  is truncated towards zero). It is only used with the divisor 360.\<close>

definition js_trunc :: "real \<Rightarrow> int" where
  "js_trunc v = (if 0 \<le> v then \<lfloor>v\<rfloor> else \<lceil>v\<rceil>)"

definition js_rem :: "real \<Rightarrow> real \<Rightarrow> real" where
  "js_rem a b = a - b * of_int (js_trunc (a / b))"

text \<open>\<open>Math.hypot\<close> and \<open>Math.atan2\<close> (for finite arguments, signed zero aside).\<close>

definition hypot :: "real \<Rightarrow> real \<Rightarrow> real" where
  "hypot a b = sqrt (a * a + b * b)"

definition atan2 :: "real \<Rightarrow> real \<Rightarrow> real" where
  "atan2 b a =
     (if 0 < a then arctan (b / a)
      else if a < 0 then (if 0 \<le> b then arctan (b / a) + pi else arctan (b / a) - pi)
      else if 0 < b then pi / 2
      else if b < 0 then - (pi / 2)
      else 0)"

section \<open>Data model\<close>

text \<open>What the engine reads from the DOM at the moment of a call: the container's
  bounding rectangle, the content's layout size and the content's bounding rectangle.\<close>

record layout =
  rectLeft :: real
  rectTop :: real
  rectWidth :: real
  rectHeight :: real
  offsetWidth :: real
  offsetHeight :: real
  contentRectWidth :: real
  contentRectHeight :: real

record options =
  minScale :: real
  maxScale :: real
  initialScale :: real
  wheelZoomSpeed :: real
  boundsPadding :: real
  friction :: real
  maxSpeed :: real
  transition :: bool
  pinchSpeed :: real
  elastic :: bool
  elasticResistance :: real
  elasticBounce :: real
  minElasticDistance :: real
  enableRotation :: bool

text \<open>The \<open>Transform\<close> interface; it is also what \<open>applyTransform\<close> writes into the
  content's style (translate, rotate, scale).\<close>

record Transform =
  t_scale :: real
  t_x :: real
  t_y :: real
  t_rotation :: real

text \<open>The variables an elastic-return animation captures when it is started.\<close>

record elastic_run =
  runStartX :: real
  runStartY :: real
  runTargetX :: real
  runTargetY :: real
  runStartTime :: real

text \<open>
  The instance. The fields are those of the class and of the \<open>ImagePanZoomInstance\<close>
  interfaces of the modules. Three fields stand for the host: \<open>styleTransform\<close> is the
  transform last written to the content's style, \<open>elasticClosure\<close> the variables of the
  scheduled elastic-return callback, and \<open>rafSeq\<close> the browser's counter of animation
  frame handles.
\<close>

record inst =
  options :: options
  scale :: real
  x :: real
  y :: real
  rotation :: real
  isPanning :: bool
  didMove :: bool
  startClientX :: real
  startClientY :: real
  startX :: real
  startY :: real
  velocityX :: real
  velocityY :: real
  velocityScale :: real
  lastMoveTime :: real
  lastClientX :: real
  lastClientY :: real
  lastScale :: real
  animationFrameId :: "nat option"
  DRAG_THRESHOLD :: real
  touchStartDistance :: real
  touchStartScale :: real
  touchStartAngle :: real
  initialRotation :: real
  isPinching :: bool
  touchIds :: "int option \<times> int option"
  touchPoints :: "int \<rightharpoonup> real \<times> real"
  elasticX :: real
  elasticY :: real
  isAnimatingElastic :: bool
  elasticAnimationId :: "nat option"
  lastTouchEndTime :: real
  lastTouchX :: real
  lastTouchY :: real
  DOUBLE_TAP_DELAY :: real
  DOUBLE_TAP_THRESHOLD :: real
  transitionDuration :: real
  isTransitioning :: bool
  styleTransform :: Transform
  elasticClosure :: "elastic_run option"
  rafSeq :: nat

record bounds =
  minX :: real
  maxX :: real
  minY :: real
  maxY :: real

record ElementSizes = bounds +
  containerWidth :: real
  containerHeight :: real
  sizesPadding :: real
  contentWidth :: real
  contentHeight :: real
  fitsHorizontally :: bool
  fitsVertically :: bool

section \<open>utils.ts\<close>

definition getSizes :: "layout \<Rightarrow> inst \<Rightarrow> ElementSizes" where
  "getSizes g s =
     (let contW = rectWidth g;
          contH = rectHeight g;
          pad = min contW contH * boundsPadding (options s);
          rawW = offsetWidth g;
          rawH = offsetHeight g;
          rad = rotation s * pi / 180;
          c = \<bar>cos rad\<bar>;
          sn = \<bar>sin rad\<bar>;
          rotatedW = rawW * scale s * c + rawH * scale s * sn;
          rotatedH = rawW * scale s * sn + rawH * scale s * c;
          fitsH = (rotatedW \<le> contW);
          fitsV = (rotatedH \<le> contH)
      in \<lparr> minX = (if fitsH then 0 else - (rotatedW / 2 - contW / 2) - pad),
           maxX = (if fitsH then 0 else rotatedW / 2 - contW / 2 + pad),
           minY = (if fitsV then 0 else - (rotatedH / 2 - contH / 2) - pad),
           maxY = (if fitsV then 0 else rotatedH / 2 - contH / 2 + pad),
           containerWidth = contW,
           containerHeight = contH,
           sizesPadding = pad,
           contentWidth = rotatedW,
           contentHeight = rotatedH,
           fitsHorizontally = fitsH,
           fitsVertically = fitsV \<rparr>)"

definition calculateElasticOffset :: "inst \<Rightarrow> real \<Rightarrow> real" where
  "calculateElasticOffset s overshoot =
     (if overshoot < minElasticDistance (options s)
      then overshoot * elasticResistance (options s)
      else overshoot * elasticResistance (options s) * (1 - exp (- (overshoot / 100))))"

text \<open>\<open>calculateBoundaries\<close> updates the elastic offsets of the instance, so it returns
  the instance with the bounds.\<close>

definition elasticAxis :: "inst \<Rightarrow> real \<Rightarrow> real \<Rightarrow> real \<Rightarrow> real \<Rightarrow> real" where
  "elasticAxis s current lo hi offset =
     (if current < lo then - calculateElasticOffset s (lo - current)
      else if current > hi then calculateElasticOffset s (current - hi)
      else offset * elasticResistance (options s))"

definition calculateBoundaries :: "layout \<Rightarrow> inst \<Rightarrow> bool \<Rightarrow> inst \<times> bounds" where
  "calculateBoundaries g s useElastic =
     (let sizes = getSizes g s;
          hard = \<lparr> minX = minX sizes, maxX = maxX sizes, minY = minY sizes, maxY = maxY sizes \<rparr>
      in if \<not> useElastic \<or> \<not> elastic (options s) then (s, hard)
         else if fitsHorizontally sizes \<and> fitsVertically sizes then (s, hard)
         else
           let currentX = x s + elasticX s;
               currentY = y s + elasticY s;
               s1 = (if \<not> fitsHorizontally sizes
                     then s\<lparr>elasticX := elasticAxis s currentX (minX sizes) (maxX sizes) (elasticX s)\<rparr>
                     else s);
               s2 = (if \<not> fitsVertically sizes
                     then s1\<lparr>elasticY := elasticAxis s1 currentY (minY sizes) (maxY sizes) (elasticY s1)\<rparr>
                     else s1)
           in (s2, \<lparr> minX = minX sizes - elasticX s2, maxX = maxX sizes - elasticX s2,
                      minY = minY sizes - elasticY s2, maxY = maxY sizes - elasticY s2 \<rparr>))"

definition clampPosition :: "layout \<Rightarrow> inst \<Rightarrow> real \<Rightarrow> real \<Rightarrow> bool \<Rightarrow> inst \<times> real \<times> real" where
  "clampPosition g s nextX nextY useElastic =
     (let (s', b) = calculateBoundaries g s useElastic
      in (s', min (maxX b) (max (minX b) nextX), min (maxY b) (max (minY b) nextY)))"

definition clampScale :: "inst \<Rightarrow> real \<Rightarrow> real" where
  "clampScale s next = min (maxScale (options s)) (max (minScale (options s)) next)"

section \<open>animations.ts\<close>

text \<open>\<open>requestAnimationFrame\<close> hands out the next handle.\<close>

definition requestAnimationFrame :: "inst \<Rightarrow> nat \<times> inst" where
  "requestAnimationFrame s = (Suc (rafSeq s), s\<lparr>rafSeq := Suc (rafSeq s)\<rparr>)"

text \<open>The assignment \<open>animationFrameId = requestAnimationFrame(...)\<close> that schedules a
  frame of the kinetic animation.\<close>

definition scheduleKinetic :: "inst \<Rightarrow> inst" where
  "scheduleKinetic s = (let (h, s1) = requestAnimationFrame s in s1\<lparr>animationFrameId := Some h\<rparr>)"

definition stopAnimation :: "inst \<Rightarrow> inst" where
  "stopAnimation s =
     (let s1 = (if animationFrameId s \<noteq> None then s\<lparr>animationFrameId := None\<rparr> else s)
      in if elasticAnimationId s1 \<noteq> None
         then s1\<lparr>elasticAnimationId := None, isAnimatingElastic := False, elasticClosure := None\<rparr>
         else s1)"

text \<open>\<open>animateElasticReturn\<close> up to the scheduling of its first frame; \<open>now\<close> is the
  value of \<open>Date.now()\<close>.\<close>

definition animateElasticReturn :: "layout \<Rightarrow> inst \<Rightarrow> real \<Rightarrow> inst" where
  "animateElasticReturn g s now =
     (if isAnimatingElastic s \<or> \<not> elastic (options s) then s
      else
        let sizes = getSizes g s;
            (s0, b) = calculateBoundaries g s False;
            needsBounceX = (\<not> fitsHorizontally sizes \<and> (x s0 < minX b \<or> x s0 > maxX b));
            needsBounceY = (\<not> fitsVertically sizes \<and> (y s0 < minY b \<or> y s0 > maxY b))
        in if \<not> needsBounceX \<and> \<not> needsBounceY then s0
           else
             let s1 = stopAnimation (s0\<lparr>isAnimatingElastic := True\<rparr>);
                 run = \<lparr> runStartX = x s1, runStartY = y s1,
                         runTargetX = min (maxX b) (max (minX b) (x s1)),
                         runTargetY = min (maxY b) (max (minY b) (y s1)),
                         runStartTime = now \<rparr>;
                 (h, s2) = requestAnimationFrame s1
             in s2\<lparr>elasticAnimationId := Some h, elasticClosure := Some run\<rparr>)"

section \<open>core.ts\<close>

text \<open>\<open>applyTransform\<close>: the hard clamp, the reset of the elastic offsets, the
  transition flag, and the transform written to the content's style.\<close>

definition applyTransform :: "layout \<Rightarrow> inst \<Rightarrow> bool \<Rightarrow> inst" where
  "applyTransform g s useTransition =
     (let (s1, cx, cy) = clampPosition g s (x s) (y s) False;
          s2 = s1\<lparr>x := cx, y := cy, elasticX := 0, elasticY := 0\<rparr>;
          s3 = (if transition (options s2) \<and> useTransition \<and> \<not> isTransitioning s2
                then s2\<lparr>isTransitioning := True\<rparr>
                else if \<not> useTransition then s2\<lparr>isTransitioning := False\<rparr>
                else s2)
      in s3\<lparr>styleTransform :=
              \<lparr> t_scale = scale s3, t_x = x s3 + elasticX s3, t_y = y s3 + elasticY s3,
                t_rotation = rotation s3 \<rparr>\<rparr>)"

text \<open>The callback of the transition timeout.\<close>

definition transitionTimeout :: "inst \<Rightarrow> inst" where
  "transitionTimeout s = s\<lparr>isTransitioning := False\<rparr>"

text \<open>The elastic-return frame: the closure \<open>animate\<close> of \<open>animateElasticReturn\<close> in
  \<open>animations.ts\<close>, which ends in \<open>applyTransform\<close>.\<close>

definition elasticFrame :: "layout \<Rightarrow> inst \<Rightarrow> real \<Rightarrow> inst" where
  "elasticFrame g s now =
     (case elasticClosure s of
        None \<Rightarrow> s
      | Some run \<Rightarrow>
          let elapsed = now - runStartTime run;
              progress = min (elapsed / 300) 1;
              easedProgress = 1 - (1 - progress) ^ 3;
              s1 = applyTransform g
                     (s\<lparr>x := runStartX run + (runTargetX run - runStartX run) * easedProgress,
                        y := runStartY run + (runTargetY run - runStartY run) * easedProgress\<rparr>)
                     False
          in if progress < 1
             then (let (h, s2) = requestAnimationFrame s1 in s2\<lparr>elasticAnimationId := Some h\<rparr>)
             else s1\<lparr>isAnimatingElastic := False, elasticAnimationId := None,
                      elasticClosure := None\<rparr>)"

text \<open>The options a caller may pass, and the defaults of the constructor. The
  constructor copies thirteen options; \<open>enableRotation\<close> is not among them, so the
  resolved record reads it as absent, which the pinch handler's test takes as false.\<close>

record ImagePanZoomOptions =
  o_minScale :: "real option"
  o_maxScale :: "real option"
  o_initialScale :: "real option"
  o_wheelZoomSpeed :: "real option"
  o_boundsPadding :: "real option"
  o_friction :: "real option"
  o_maxSpeed :: "real option"
  o_transition :: "bool option"
  o_pinchSpeed :: "real option"
  o_elastic :: "bool option"
  o_elasticResistance :: "real option"
  o_elasticBounce :: "real option"
  o_minElasticDistance :: "real option"
  o_enableRotation :: "bool option"

definition nullish :: "'a option \<Rightarrow> 'a \<Rightarrow> 'a" where
  "nullish v d = (case v of None \<Rightarrow> d | Some w \<Rightarrow> w)"

definition resolveOptions :: "ImagePanZoomOptions \<Rightarrow> options" where
  "resolveOptions p =
     \<lparr> minScale = nullish (o_minScale p) (1 / 2),
       maxScale = nullish (o_maxScale p) 3,
       initialScale = nullish (o_initialScale p) 1,
       wheelZoomSpeed = nullish (o_wheelZoomSpeed p) (15 / 10000),
       boundsPadding = nullish (o_boundsPadding p) (1 / 10),
       friction = nullish (o_friction p) (92 / 100),
       maxSpeed = nullish (o_maxSpeed p) 300,
       transition = nullish (o_transition p) False,
       pinchSpeed = nullish (o_pinchSpeed p) 1,
       elastic = nullish (o_elastic p) True,
       elasticResistance = nullish (o_elasticResistance p) (15 / 100),
       elasticBounce = nullish (o_elasticBounce p) (3 / 10),
       minElasticDistance = nullish (o_minElasticDistance p) 5,
       enableRotation = False \<rparr>"

definition noOptions :: ImagePanZoomOptions where
  "noOptions =
     \<lparr> o_minScale = None, o_maxScale = None, o_initialScale = None, o_wheelZoomSpeed = None,
       o_boundsPadding = None, o_friction = None, o_maxSpeed = None, o_transition = None,
       o_pinchSpeed = None, o_elastic = None, o_elasticResistance = None,
       o_elasticBounce = None, o_minElasticDistance = None, o_enableRotation = None \<rparr>"

text \<open>The transform of the style before the first \<open>applyTransform\<close>.\<close>

definition emptyTransform :: Transform where
  "emptyTransform = \<lparr> t_scale = 1, t_x = 0, t_y = 0, t_rotation = 0 \<rparr>"

text \<open>
  Modelled from the spec: the initial values of the gesture-session fields that the
  handlers of \<open>events.ts\<close> use and \<open>core.ts\<close> does not declare. The drag threshold is
  3 px, the double-tap delay 300 ms and the double-tap threshold 10 px; no gesture and
  no animation is active, and the remaining numbers start at 0 (the start scales at
  1). The velocities, the transition fields and the elastic offsets are initialised as
  \<open>core.ts\<close> declares them. This is the object before the constructor body runs, which
  assigns the options, the scale, the translation and the rotation.
\<close>

definition fieldInitialisers :: "options \<Rightarrow> inst" where
  "fieldInitialisers opts =
     \<lparr> options = opts, scale = 1, x = 0, y = 0, rotation = 0,
       isPanning = False, didMove = False,
       startClientX = 0, startClientY = 0, startX = 0, startY = 0,
       velocityX = 0, velocityY = 0, velocityScale = 0,
       lastMoveTime = 0, lastClientX = 0, lastClientY = 0, lastScale = 1,
       animationFrameId = None, DRAG_THRESHOLD = 3,
       touchStartDistance = 0, touchStartScale = 1, touchStartAngle = 0, initialRotation = 0,
       isPinching = False, touchIds = (None, None), touchPoints = Map.empty,
       elasticX = 0, elasticY = 0, isAnimatingElastic = False, elasticAnimationId = None,
       lastTouchEndTime = 0, lastTouchX = 0, lastTouchY = 0,
       DOUBLE_TAP_DELAY = 300, DOUBLE_TAP_THRESHOLD = 10,
       transitionDuration = 300, isTransitioning = False,
       styleTransform = emptyTransform, elasticClosure = None, rafSeq = 0 \<rparr>"

text \<open>The constructor body on an object \<open>this\<close> with resolved options, then \<open>init\<close>.\<close>

definition init :: "layout \<Rightarrow> inst \<Rightarrow> inst" where
  "init g s = applyTransform g s False"

definition construct :: "inst \<Rightarrow> options \<Rightarrow> layout \<Rightarrow> inst" where
  "construct this opts g =
     init g (this\<lparr>options := opts, scale := initialScale opts, x := 0, y := 0, rotation := 0\<rparr>)"

definition newImagePanZoom :: "ImagePanZoomOptions \<Rightarrow> layout \<Rightarrow> inst" where
  "newImagePanZoom p g = construct (fieldInitialisers (resolveOptions p)) (resolveOptions p) g"

definition reset :: "layout \<Rightarrow> inst \<Rightarrow> inst" where
  "reset g s =
     applyTransform g
       ((stopAnimation s)\<lparr>scale := initialScale (options s), x := 0, y := 0, rotation := 0,
          velocityX := 0, velocityY := 0, velocityScale := 0, elasticX := 0, elasticY := 0\<rparr>)
       True"

definition rotate :: "layout \<Rightarrow> inst \<Rightarrow> real \<Rightarrow> inst" where
  "rotate g s deg =
     (let s1 = stopAnimation s;
          s2 = s1\<lparr>rotation := js_rem (rotation s1 + deg) 360\<rparr>;
          (s3, cx, cy) = clampPosition g s2 (x s2) (y s2) False
      in applyTransform g (s3\<lparr>x := cx, y := cy\<rparr>) True)"

definition getTransform :: "inst \<Rightarrow> Transform" where
  "getTransform s = \<lparr> t_scale = scale s, t_x = x s, t_y = y s, t_rotation = rotation s \<rparr>"

record PartialTransform =
  p_scale :: "real option"
  p_x :: "real option"
  p_y :: "real option"
  p_rotation :: "real option"

definition shouldUseTransition :: "bool option \<Rightarrow> bool" where
  "shouldUseTransition useTransition = (case useTransition of None \<Rightarrow> True | Some b \<Rightarrow> b)"

definition setTransform :: "layout \<Rightarrow> inst \<Rightarrow> PartialTransform \<Rightarrow> bool option \<Rightarrow> inst" where
  "setTransform g s tr useTransition =
     (let s0 = stopAnimation s;
          s1 = (case p_scale tr of None \<Rightarrow> s0 | Some v \<Rightarrow> s0\<lparr>scale := clampScale s0 v\<rparr>);
          s2 = (case p_x tr of None \<Rightarrow> s1 | Some v \<Rightarrow> s1\<lparr>x := v\<rparr>);
          s3 = (case p_y tr of None \<Rightarrow> s2 | Some v \<Rightarrow> s2\<lparr>y := v\<rparr>);
          s4 = (case p_rotation tr of None \<Rightarrow> s3 | Some v \<Rightarrow> s3\<lparr>rotation := v\<rparr>);
          (s5, cx, cy) = clampPosition g s4 (x s4) (y s4) False
      in applyTransform g (s5\<lparr>x := cx, y := cy\<rparr>)
           (shouldUseTransition useTransition \<and> transition (options s5)))"

definition containerToImage :: "layout \<Rightarrow> inst \<Rightarrow> real \<Rightarrow> real \<Rightarrow> real \<times> real" where
  "containerToImage g s containerX containerY =
     (let centerX = rectWidth g / 2;
          centerY = rectHeight g / 2;
          relativeX = containerX - centerX - x s;
          relativeY = containerY - centerY - y s
      in (relativeX / scale s + contentRectWidth g / 2 / scale s,
          relativeY / scale s + contentRectHeight g / 2 / scale s))"

definition imageToContainer :: "layout \<Rightarrow> inst \<Rightarrow> real \<Rightarrow> real \<Rightarrow> real \<times> real" where
  "imageToContainer g s imageX imageY =
     (let centerX = rectWidth g / 2;
          centerY = rectHeight g / 2;
          relativeX = (imageX - contentRectWidth g / 2 / scale s) * scale s;
          relativeY = (imageY - contentRectHeight g / 2 / scale s) * scale s
      in (centerX + x s + relativeX, centerY + y s + relativeY))"

definition moveTo :: "layout \<Rightarrow> inst \<Rightarrow> real \<Rightarrow> real \<Rightarrow> bool option \<Rightarrow> inst" where
  "moveTo g s targetX targetY useTransition =
     (let s1 = stopAnimation s;
          s2 = s1\<lparr>x := targetX - rectWidth g / 2, y := targetY - rectHeight g / 2\<rparr>;
          (s3, cx, cy) = clampPosition g s2 (x s2) (y s2) False
      in applyTransform g (s3\<lparr>x := cx, y := cy\<rparr>)
           (shouldUseTransition useTransition \<and> transition (options s3)))"

definition moveBy :: "layout \<Rightarrow> inst \<Rightarrow> real \<Rightarrow> real \<Rightarrow> bool option \<Rightarrow> inst" where
  "moveBy g s deltaX deltaY useTransition =
     (let s1 = stopAnimation s;
          s2 = s1\<lparr>x := x s1 + deltaX, y := y s1 + deltaY\<rparr>;
          (s3, cx, cy) = clampPosition g s2 (x s2) (y s2) False
      in applyTransform g (s3\<lparr>x := cx, y := cy\<rparr>)
           (shouldUseTransition useTransition \<and> transition (options s3)))"

definition centerOnImagePoint :: "layout \<Rightarrow> inst \<Rightarrow> real \<Rightarrow> real \<Rightarrow> bool option \<Rightarrow> inst" where
  "centerOnImagePoint g s imageX imageY useTransition =
     (let (cx, cy) = imageToContainer g s imageX imageY in moveTo g s cx cy useTransition)"

definition zoomTo :: "layout \<Rightarrow> inst \<Rightarrow> real \<Rightarrow> real option \<Rightarrow> real option \<Rightarrow> bool option \<Rightarrow> inst" where
  "zoomTo g s sc pointX pointY useTransition =
     (let s0 = stopAnimation s;
          targetX = (case pointX of None \<Rightarrow> rectWidth g / 2 | Some v \<Rightarrow> v);
          targetY = (case pointY of None \<Rightarrow> rectHeight g / 2 | Some v \<Rightarrow> v);
          prevScale = scale s0;
          nextScale = clampScale s0 sc
      in if nextScale = prevScale then s0
         else
           let localX = targetX - rectWidth g / 2 - x s0;
               localY = targetY - rectHeight g / 2 - y s0;
               k = nextScale / prevScale;
               s1 = s0\<lparr>scale := nextScale, x := x s0 + (localX - localX * k),
                       y := y s0 + (localY - localY * k)\<rparr>;
               (s2, cx, cy) = clampPosition g s1 (x s1) (y s1) False
           in applyTransform g (s2\<lparr>x := cx, y := cy\<rparr>)
                (shouldUseTransition useTransition \<and> transition (options s2)))"

definition zoomToPoint :: "layout \<Rightarrow> inst \<Rightarrow> real \<Rightarrow> real \<Rightarrow> real \<Rightarrow> inst" where
  "zoomToPoint g s cX cY deltaScale =
     (let prevScale = scale s;
          nextScale = clampScale s (prevScale * deltaScale)
      in if nextScale = prevScale then s
         else
           let localX = cX - rectLeft g - rectWidth g / 2 - x s;
               localY = cY - rectTop g - rectHeight g / 2 - y s;
               k = nextScale / prevScale;
               s1 = s\<lparr>scale := nextScale, x := x s + (localX - localX * k),
                      y := y s + (localY - localY * k)\<rparr>;
               (s2, cx, cy) = clampPosition g s1 (x s1) (y s1) True
           in applyTransform g (s2\<lparr>x := cx, y := cy\<rparr>) False)"

definition getViewportBounds :: "layout \<Rightarrow> inst \<Rightarrow> real \<times> real \<times> real \<times> real" where
  "getViewportBounds g s =
     (let centerX = rectWidth g / 2;
          centerY = rectHeight g / 2;
          sizes = getSizes g s
      in (centerX + x s - contentWidth sizes / 2, centerY + y s - contentHeight sizes / 2,
          centerX + x s + contentWidth sizes / 2, centerY + y s + contentHeight sizes / 2))"

text \<open>
  One call of the method \<open>animateKinetic\<close> of the class. The stop branch hands over to
  the elastic return; the other branch is one tick of the integrator. The method does
  not schedule a further frame.
\<close>

definition kineticStopped :: "inst \<Rightarrow> bool" where
  "kineticStopped s \<longleftrightarrow>
     \<bar>velocityX s\<bar> < 1 / 2 \<and> \<bar>velocityY s\<bar> < 1 / 2 \<and> \<bar>velocityScale s\<bar> < 1 / 1000"

definition kineticTick :: "layout \<Rightarrow> inst \<Rightarrow> inst" where
  "kineticTick g s =
     (let s1 = s\<lparr>x := x s + velocityX s, y := y s + velocityY s,
                 scale := scale s + velocityScale s\<rparr>;
          s2 = (if scale s1 < minScale (options s1) then s1\<lparr>scale := minScale (options s1)\<rparr> else s1);
          s3 = (if scale s2 > maxScale (options s2) then s2\<lparr>scale := maxScale (options s2)\<rparr> else s2);
          (s4, cx, cy) = clampPosition g s3 (x s3) (y s3) True;
          s5 = s4\<lparr>x := cx, y := cy\<rparr>;
          s6 = s5\<lparr>velocityX := velocityX s5 * friction (options s5),
                   velocityY := velocityY s5 * friction (options s5),
                   velocityScale := velocityScale s5 * friction (options s5)\<rparr>
      in applyTransform g s6 False)"

definition animateKinetic :: "layout \<Rightarrow> inst \<Rightarrow> real \<Rightarrow> inst" where
  "animateKinetic g s now =
     (if kineticStopped s
      then applyTransform g (animateElasticReturn g (stopAnimation s) now) False
      else kineticTick g s)"

text \<open>
  \<open>animations.ts\<close> has the function \<open>animateKinetic\<close> too, with the same two branches;
  after a tick it schedules itself for the next frame. \<open>animateKineticLoop\<close> is one call
  of it, and \<open>animateKineticRun\<close> the run of the loop, frame after frame with no other
  event in between: \<open>clock k\<close> is \<open>Date.now()\<close> at frame \<open>k\<close>, the fuel bounds the
  number of frames, and the result is the number of ticks with the state the stop
  branch leaves.
\<close>

definition animateKineticLoop :: "layout \<Rightarrow> inst \<Rightarrow> real \<Rightarrow> inst" where
  "animateKineticLoop g s now =
     (if kineticStopped s
      then applyTransform g (animateElasticReturn g (stopAnimation s) now) False
      else scheduleKinetic (kineticTick g s))"



section \<open>events.ts\<close>

text \<open>The events of the input sources. \<open>now\<close> in the handlers is \<open>Date.now()\<close>. The
  field \<open>identifier\<close> of a touch is \<open>touch_identifier\<close> here.\<close>

record MouseEvent =
  clientX :: real
  clientY :: real

record Touch = MouseEvent +
  touch_identifier :: int

record PointerEvent = MouseEvent +
  button :: int
  pointerId :: int

record WheelEvent = MouseEvent +
  deltaY :: real

record TouchEvent =
  touches :: "Touch list"
  changedTouches :: "Touch list"

definition getAngle :: "real \<Rightarrow> real \<Rightarrow> real \<Rightarrow> real \<Rightarrow> real" where
  "getAngle x1 y1 x2 y2 = atan2 (y2 - y1) (x2 - x1)"

definition getDistance :: "real \<Rightarrow> real \<Rightarrow> real \<Rightarrow> real \<Rightarrow> real" where
  "getDistance x1 y1 x2 y2 = hypot (x2 - x1) (y2 - y1)"

definition getCenter :: "real \<Rightarrow> real \<Rightarrow> real \<Rightarrow> real \<Rightarrow> real \<times> real" where
  "getCenter x1 y1 x2 y2 = ((x1 + x2) / 2, (y1 + y2) / 2)"

definition worldToLocal :: "layout \<Rightarrow> inst \<Rightarrow> real \<Rightarrow> real \<Rightarrow> real \<times> real" where
  "worldToLocal g s worldX worldY =
     (let containerCenterX = rectLeft g + rectWidth g / 2;
          containerCenterY = rectTop g + rectHeight g / 2;
          pointX = worldX - containerCenterX - x s;
          pointY = worldY - containerCenterY - y s;
          angle = - rotation s * pi / 180;
          c = cos angle;
          sn = sin angle;
          rotatedX = pointX * c - pointY * sn;
          rotatedY = pointX * sn + pointY * c
      in (rotatedX / scale s, rotatedY / scale s))"

definition applyAroundPivot :: "layout \<Rightarrow> inst \<Rightarrow> real \<Rightarrow> real \<Rightarrow> real \<Rightarrow> real \<Rightarrow> inst" where
  "applyAroundPivot g s pivotWorldX pivotWorldY newScale newRotation =
     (let containerCenterX = rectLeft g + rectWidth g / 2;
          containerCenterY = rectTop g + rectHeight g / 2;
          currentAngle = rotation s * pi / 180;
          currentCos = cos currentAngle;
          currentSin = sin currentAngle;
          pivotToContainerX = pivotWorldX - containerCenterX - x s;
          pivotToContainerY = pivotWorldY - containerCenterY - y s;
          localX = (pivotToContainerX * currentCos + pivotToContainerY * currentSin) / scale s;
          localY = (- pivotToContainerX * currentSin + pivotToContainerY * currentCos) / scale s;
          newAngle = newRotation * pi / 180;
          newCos = cos newAngle;
          newSin = sin newAngle;
          newPivotToContainerX = (localX * newCos - localY * newSin) * newScale;
          newPivotToContainerY = (localX * newSin + localY * newCos) * newScale
      in s\<lparr>x := pivotWorldX - containerCenterX - newPivotToContainerX,
            y := pivotWorldY - containerCenterY - newPivotToContainerY,
            scale := newScale,
            rotation := newRotation\<rparr>)"

definition handleWheel :: "layout \<Rightarrow> inst \<Rightarrow> WheelEvent \<Rightarrow> inst" where
  "handleWheel g s e =
     (let s0 = stopAnimation s;
          delta = - deltaY e * wheelZoomSpeed (options s0);
          factor = 1 + delta
      in if factor \<le> 0 then s0
         else
           let targetScale = clampScale s0 (scale s0 * factor)
           in applyTransform g
                (applyAroundPivot g s0 (clientX e) (clientY e) targetScale (rotation s0)) False)"

definition handlePointerDown :: "inst \<Rightarrow> PointerEvent \<Rightarrow> real \<Rightarrow> inst" where
  "handlePointerDown s e now =
     (if button e \<noteq> 0 then s
      else (stopAnimation s)
             \<lparr>isAnimatingElastic := False, isPanning := True, didMove := False,
              startClientX := clientX e, startClientY := clientY e,
              startX := x s, startY := y s,
              lastClientX := clientX e, lastClientY := clientY e,
              lastScale := scale s, lastMoveTime := now,
              velocityX := 0, velocityY := 0, velocityScale := 0\<rparr>)"

definition clampSpeed :: "real \<Rightarrow> real \<Rightarrow> real" where
  "clampSpeed limit v = max (- limit) (min limit v)"

definition handlePointerMove :: "layout \<Rightarrow> inst \<Rightarrow> PointerEvent \<Rightarrow> real \<Rightarrow> inst" where
  "handlePointerMove g s e now =
     (if \<not> isPanning s then s
      else
        let dx = clientX e - startClientX s;
            dy = clientY e - startClientY s
        in if \<not> didMove s \<and> hypot dx dy < DRAG_THRESHOLD s then s
           else
             let s1 = s\<lparr>didMove := True\<rparr>;
                 (s2, cx, cy) = clampPosition g s1 (startX s1 + dx) (startY s1 + dy) True;
                 s3 = s2\<lparr>x := cx, y := cy\<rparr>;
                 dt = now - lastMoveTime s3;
                 s4 = (if dt > 0
                       then s3\<lparr>velocityX := clampSpeed (maxSpeed (options s3))
                                               ((clientX e - lastClientX s3) / dt * 16),
                                velocityY := clampSpeed (maxSpeed (options s3))
                                               ((clientY e - lastClientY s3) / dt * 16),
                                velocityScale := clampSpeed (1 / 100)
                                               ((scale s3 - lastScale s3) / dt * 16)\<rparr>
                       else s3);
                 s5 = s4\<lparr>lastClientX := clientX e, lastClientY := clientY e,
                          lastScale := scale s4, lastMoveTime := now\<rparr>
             in applyTransform g s5 False)"

definition handlePointerUp :: "layout \<Rightarrow> inst \<Rightarrow> PointerEvent \<Rightarrow> real \<Rightarrow> inst" where
  "handlePointerUp g s e now =
     (if \<not> isPanning s then s
      else
        let s1 = s\<lparr>isPanning := False\<rparr>
        in if didMove s1
           then (if \<bar>velocityX s1\<bar> > 1 \<or> \<bar>velocityY s1\<bar> > 1 \<or> \<bar>velocityScale s1\<bar> > 1 / 1000
                 then scheduleKinetic s1
                 else animateElasticReturn g s1 now)
           else s1)"

text \<open>\<open>handleDoubleClick\<close> and \<open>handleDoubleTap\<close> have the same body, on the client
  coordinates of the click or tap.\<close>

definition handleDoubleTap :: "layout \<Rightarrow> inst \<Rightarrow> real \<Rightarrow> real \<Rightarrow> inst" where
  "handleDoubleTap g s cX cY =
     (let s0 = stopAnimation s;
          centerX = rectWidth g / 2;
          centerY = rectHeight g / 2;
          clickX = cX - rectLeft g;
          clickY = cY - rectTop g;
          targetScale = min (scale s0 * (3 / 2)) (maxScale (options s0));
          scaleRatio = targetScale / scale s0;
          localX = clickX - centerX - x s0;
          localY = clickY - centerY - y s0;
          s1 = s0\<lparr>scale := targetScale\<rparr>;
          s2 = s1\<lparr>x := x s1 + (localX - localX * scaleRatio),
                   y := y s1 + (localY - localY * scaleRatio)\<rparr>;
          (s3, cx, cy) = clampPosition g s2 (x s2) (y s2) False
      in applyTransform g (s3\<lparr>x := cx, y := cy\<rparr>) True)"

definition handleDoubleClick :: "layout \<Rightarrow> inst \<Rightarrow> MouseEvent \<Rightarrow> inst" where
  "handleDoubleClick g s e = handleDoubleTap g s (clientX e) (clientY e)"

definition handleTouchStart :: "inst \<Rightarrow> TouchEvent \<Rightarrow> real \<Rightarrow> inst" where
  "handleTouchStart s e now =
     (case touches e of
        [touch] \<Rightarrow>
          s\<lparr>isPanning := True, didMove := False,
            startClientX := clientX touch, startClientY := clientY touch,
            startX := x s, startY := y s,
            lastClientX := clientX touch, lastClientY := clientY touch,
            lastScale := scale s, lastMoveTime := now\<rparr>
      | [touch1, touch2] \<Rightarrow>
          s\<lparr>isPinching := True, isPanning := False,
            touchIds := (Some (touch_identifier touch1), Some (touch_identifier touch2)),
            touchPoints := [touch_identifier touch1 \<mapsto> (clientX touch1, clientY touch1),
                            touch_identifier touch2 \<mapsto> (clientX touch2, clientY touch2)],
            touchStartDistance :=
              getDistance (clientX touch1) (clientY touch1) (clientX touch2) (clientY touch2),
            touchStartAngle :=
              getAngle (clientX touch1) (clientY touch1) (clientX touch2) (clientY touch2),
            touchStartScale := scale s,
            initialRotation := rotation s\<rparr>
      | _ \<Rightarrow> s)"

text \<open>
  The scale of a pinch divides by the start distance of the gesture, which is zero when
  the two fingers start at the same point. JavaScript then yields \<open>Infinity\<close> or
  \<open>NaN\<close>; the computation of the clamped scale is modelled with these values.
\<close>

datatype jsnum = Num real | PosInf | NegInf | NaN

definition js_div :: "real \<Rightarrow> real \<Rightarrow> jsnum" where
  "js_div a b =
     (if b \<noteq> 0 then Num (a / b)
      else if 0 < a then PosInf else if a < 0 then NegInf else NaN)"

fun js_times :: "jsnum \<Rightarrow> real \<Rightarrow> jsnum" where
  "js_times (Num a) b = Num (a * b)"
| "js_times PosInf b = (if 0 < b then PosInf else if b < 0 then NegInf else NaN)"
| "js_times NegInf b = (if 0 < b then NegInf else if b < 0 then PosInf else NaN)"
| "js_times NaN b = NaN"

text \<open>\<open>Math.min(maxScale, Math.max(minScale, v))\<close> on such a value.\<close>

fun js_clampScale :: "inst \<Rightarrow> jsnum \<Rightarrow> jsnum" where
  "js_clampScale s (Num v) = Num (clampScale s v)"
| "js_clampScale s PosInf = Num (maxScale (options s))"
| "js_clampScale s NegInf = Num (min (maxScale (options s)) (minScale (options s)))"
| "js_clampScale s NaN = NaN"

definition pinchScale :: "inst \<Rightarrow> real \<Rightarrow> jsnum" where
  "pinchScale s currentDistance =
     js_clampScale s
       (js_times (js_times (js_div currentDistance (touchStartDistance s)) (touchStartScale s))
          (pinchSpeed (options s)))"

text \<open>The loop over the touches that looks for the tracked identifiers: the last touch
  with the identifier wins.\<close>

definition findTouch :: "int option \<Rightarrow> Touch list \<Rightarrow> Touch option" where
  "findTouch tid ts =
     (case tid of
        None \<Rightarrow> None
      | Some i \<Rightarrow> (case filter (\<lambda>t. touch_identifier t = i) ts of [] \<Rightarrow> None | f # fs \<Rightarrow> Some (last (f # fs))))"

definition pinchTouches :: "inst \<Rightarrow> Touch \<Rightarrow> Touch \<Rightarrow> inst \<times> Touch \<times> Touch" where
  "pinchTouches s t0 t1 =
     (case (findTouch (fst (touchIds s)) [t0, t1], findTouch (snd (touchIds s)) [t0, t1]) of
        (Some touch1, Some touch2) \<Rightarrow> (s, touch1, touch2)
      | _ \<Rightarrow> (s\<lparr>touchIds := (Some (touch_identifier t0), Some (touch_identifier t1))\<rparr>, t0, t1))"

definition pinchRotation :: "inst \<Rightarrow> real \<Rightarrow> real" where
  "pinchRotation s currentAngle =
     (if enableRotation (options s)
      then
        let angleDelta = currentAngle - touchStartAngle s;
            r = initialRotation s + angleDelta * (180 / pi)
        in js_rem (r + 180) 360 - 180
      else rotation s)"

text \<open>
  \<open>handleTouchMove\<close>. The fields of the instance are real numbers, so the one outcome
  they cannot hold is reported: the result is \<open>None\<close> when the pinch writes \<open>NaN\<close> into
  the scale.
\<close>

definition handleTouchMove :: "layout \<Rightarrow> inst \<Rightarrow> TouchEvent \<Rightarrow> real \<Rightarrow> inst option" where
  "handleTouchMove g s e now =
     (case touches e of
        [t0, t1] \<Rightarrow>
          if isPinching s then
            let (s1, touch1, touch2) = pinchTouches s t0 t1;
                s2 = s1\<lparr>touchPoints := (touchPoints s1)
                          (touch_identifier touch1 \<mapsto> (clientX touch1, clientY touch1),
                           touch_identifier touch2 \<mapsto> (clientX touch2, clientY touch2))\<rparr>;
                currentDistance =
                  getDistance (clientX touch1) (clientY touch1) (clientX touch2) (clientY touch2);
                currentAngle =
                  getAngle (clientX touch1) (clientY touch1) (clientX touch2) (clientY touch2);
                rot = pinchRotation s2 currentAngle;
                (centerX, centerY) =
                  getCenter (clientX touch1) (clientY touch1) (clientX touch2) (clientY touch2)
            in (case pinchScale s2 currentDistance of
                  Num clampedScale \<Rightarrow>
                    Some (applyTransform g
                            (applyAroundPivot g s2 centerX centerY clampedScale rot) False)
                | _ \<Rightarrow> None)
          else Some s
      | [touch] \<Rightarrow>
          if isPanning s then
            let dx = clientX touch - startClientX s;
                dy = clientY touch - startClientY s
            in if \<not> didMove s \<and> hypot dx dy < DRAG_THRESHOLD s then Some s
               else
                 let s1 = s\<lparr>didMove := True\<rparr>;
                     (s2, cx, cy) = clampPosition g s1 (startX s1 + dx) (startY s1 + dy) True;
                     s3 = s2\<lparr>x := cx, y := cy\<rparr>;
                     dt = now - lastMoveTime s3;
                     s4 = (if dt > 0
                           then s3\<lparr>velocityX := clampSpeed (maxSpeed (options s3))
                                                   ((clientX touch - lastClientX s3) / dt * 16),
                                    velocityY := clampSpeed (maxSpeed (options s3))
                                                   ((clientY touch - lastClientY s3) / dt * 16)\<rparr>
                           else s3);
                     s5 = s4\<lparr>lastClientX := clientX touch, lastClientY := clientY touch,
                              lastMoveTime := now\<rparr>
                 in Some (applyTransform g s5 False)
          else Some s
      | _ \<Rightarrow> Some s)"

definition handleDoubleTapCheck :: "layout \<Rightarrow> inst \<Rightarrow> TouchEvent \<Rightarrow> real \<Rightarrow> inst" where
  "handleDoubleTapCheck g s e now =
     (case changedTouches e of
        [] \<Rightarrow> s
      | touch # _ \<Rightarrow>
          let touchX = clientX touch;
              touchY = clientY touch
          in if now - lastTouchEndTime s < DOUBLE_TAP_DELAY s
                \<and> \<bar>touchX - lastTouchX s\<bar> < DOUBLE_TAP_THRESHOLD s
                \<and> \<bar>touchY - lastTouchY s\<bar> < DOUBLE_TAP_THRESHOLD s
             then (handleDoubleTap g s touchX touchY)
                    \<lparr>lastTouchEndTime := 0, lastTouchX := 0, lastTouchY := 0\<rparr>
             else s\<lparr>lastTouchEndTime := now, lastTouchX := touchX, lastTouchY := touchY\<rparr>)"

definition releaseGesture :: "layout \<Rightarrow> inst \<Rightarrow> real \<Rightarrow> inst" where
  "releaseGesture g s now =
     (if didMove s \<and> (\<bar>velocityX s\<bar> > 1 \<or> \<bar>velocityY s\<bar> > 1)
      then scheduleKinetic s
      else animateElasticReturn g s now)"

definition handleTouchEnd :: "layout \<Rightarrow> inst \<Rightarrow> TouchEvent \<Rightarrow> real \<Rightarrow> inst" where
  "handleTouchEnd g s e now =
     (let s1 =
        (case touches e of
           [] \<Rightarrow>
             if isPinching s
             then releaseGesture g
                    (s\<lparr>isPinching := False, touchIds := (None, None), touchPoints := Map.empty\<rparr>) now
             else if isPanning s
             then releaseGesture g (s\<lparr>isPanning := False\<rparr>) now
             else s
         | [touch] \<Rightarrow>
             if isPinching s
             then s\<lparr>isPinching := False, isPanning := True,
                    startClientX := clientX touch, startClientY := clientY touch,
                    startX := x s, startY := y s, didMove := False,
                    lastClientX := clientX touch, lastClientY := clientY touch,
                    lastMoveTime := now\<rparr>
             else s
         | _ \<Rightarrow> s)
      in handleDoubleTapCheck g s1 e now)"

section \<open>The engine as a transition system\<close>

text \<open>
  Everything that can happen to an instance: an input event, a frame of an animation,
  the end of a transition, or a call of the public interface. A step takes the layout
  and the time of the moment. Which callbacks are pending is not tracked: a frame may
  fire in any state, so the reachable states below include those of the running engine.
\<close>

datatype event =
    Wheel WheelEvent
  | PointerDown PointerEvent
  | PointerMove PointerEvent
  | PointerUp PointerEvent
  | DoubleClick MouseEvent
  | TouchStart TouchEvent
  | TouchMove TouchEvent
  | TouchEnd TouchEvent
  | KineticFrame
  | KineticLoopFrame
  | ElasticFrame
  | TransitionTimeout
  | CallReset
  | CallRotate real
  | CallSetTransform PartialTransform "bool option"
  | CallMoveTo real real "bool option"
  | CallMoveBy real real "bool option"
  | CallZoomTo real "real option" "real option" "bool option"
  | CallZoomToPoint real real real
  | CallCenterOnImagePoint real real "bool option"

fun step :: "layout \<Rightarrow> real \<Rightarrow> inst \<Rightarrow> event \<Rightarrow> inst option" where
  "step g now s (Wheel e) = Some (handleWheel g s e)"
| "step g now s (PointerDown e) = Some (handlePointerDown s e now)"
| "step g now s (PointerMove e) = Some (handlePointerMove g s e now)"
| "step g now s (PointerUp e) = Some (handlePointerUp g s e now)"
| "step g now s (DoubleClick e) = Some (handleDoubleClick g s e)"
| "step g now s (TouchStart e) = Some (handleTouchStart s e now)"
| "step g now s (TouchMove e) = handleTouchMove g s e now"
| "step g now s (TouchEnd e) = Some (handleTouchEnd g s e now)"
| "step g now s KineticFrame = Some (animateKinetic g s now)"
| "step g now s KineticLoopFrame = Some (animateKineticLoop g s now)"
| "step g now s ElasticFrame = Some (elasticFrame g s now)"
| "step g now s TransitionTimeout = Some (transitionTimeout s)"
| "step g now s CallReset = Some (reset g s)"
| "step g now s (CallRotate deg) = Some (rotate g s deg)"
| "step g now s (CallSetTransform tr u) = Some (setTransform g s tr u)"
| "step g now s (CallMoveTo tx ty u) = Some (moveTo g s tx ty u)"
| "step g now s (CallMoveBy dx dy u) = Some (moveBy g s dx dy u)"
| "step g now s (CallZoomTo sc px py u) = Some (zoomTo g s sc px py u)"
| "step g now s (CallZoomToPoint cx cy d) = Some (zoomToPoint g s cx cy d)"
| "step g now s (CallCenterOnImagePoint ix iy u) = Some (centerOnImagePoint g s ix iy u)"

text \<open>The states an instance with the options \<open>opts\<close> can reach from its construction.\<close>

inductive reachable :: "options \<Rightarrow> inst \<Rightarrow> bool" for opts :: options where
  constructed: "reachable opts (construct this opts g)"
| stepped: "reachable opts s \<Longrightarrow> step g now s e = Some s' \<Longrightarrow> reachable opts s'"

section \<open>The transform as a map of points\<close>

text \<open>
  The content is centred in the container (\<open>top\<close> and \<open>left\<close> at 50 percent, translated
  by minus 50 percent) and transformed about its centre by
  \<open>translate(x, y) rotate(rotation) scale(scale)\<close>. A point of the content, given
  relative to the content's centre, is therefore shown at this point of the screen.
\<close>

definition localToWorld :: "layout \<Rightarrow> Transform \<Rightarrow> real \<Rightarrow> real \<Rightarrow> real \<times> real" where
  "localToWorld g t localX localY =
     (let angle = t_rotation t * pi / 180
      in (rectLeft g + rectWidth g / 2 + t_x t
            + (localX * cos angle - localY * sin angle) * t_scale t,
          rectTop g + rectHeight g / 2 + t_y t
            + (localX * sin angle + localY * cos angle) * t_scale t))"

text \<open>The distance and the angle between the two fingers that a pinch move tracks.\<close>

definition pinchDistance :: "inst \<Rightarrow> Touch \<Rightarrow> Touch \<Rightarrow> real" where
  "pinchDistance s t0 t1 =
     (case pinchTouches s t0 t1 of
        (s1, touch1, touch2) \<Rightarrow>
          getDistance (clientX touch1) (clientY touch1) (clientX touch2) (clientY touch2))"

definition pinchAngle :: "inst \<Rightarrow> Touch \<Rightarrow> Touch \<Rightarrow> real" where
  "pinchAngle s t0 t1 =
     (case pinchTouches s t0 t1 of
        (s1, touch1, touch2) \<Rightarrow>
          getAngle (clientX touch1) (clientY touch1) (clientX touch2) (clientY touch2))"

section \<open>Predicates\<close>

text \<open>Options whose scale limits are positive and ordered, with the initial scale
  between them; and the range of the scale that the data model asks for.\<close>

definition validOptions :: "options \<Rightarrow> bool" where
  "validOptions opts \<longleftrightarrow>
     0 < minScale opts \<and> minScale opts \<le> initialScale opts \<and> initialScale opts \<le> maxScale opts"

definition scaleInRange :: "inst \<Rightarrow> bool" where
  "scaleInRange s \<longleftrightarrow> minScale (options s) \<le> scale s \<and> scale s \<le> maxScale (options s)"

text \<open>An operation keeps the options and, when they are valid, the range of the scale.\<close>

definition keeps :: "inst \<Rightarrow> inst \<Rightarrow> bool" where
  "keeps s s' \<longleftrightarrow> options s' = options s \<and> (validOptions (options s) \<and> scaleInRange s \<longrightarrow> scaleInRange s')"

text \<open>Both elastic offsets are zero.\<close>

definition offsetsZero :: "inst \<Rightarrow> bool" where
  "offsetsZero s \<longleftrightarrow> elasticX s = 0 \<and> elasticY s = 0"

section \<open>Concrete inputs\<close>

text \<open>A container of 500 by 500 with a content of 1000 by 1000.\<close>

definition demoLayout :: layout where
  "demoLayout =
     \<lparr> rectLeft = 0, rectTop = 0, rectWidth = 500, rectHeight = 500,
       offsetWidth = 1000, offsetHeight = 1000,
       contentRectWidth = 1000, contentRectHeight = 1000 \<rparr>"

text \<open>The same container with a content of 400 by 1000: at scale 1 the content fits
  horizontally and not vertically.\<close>

definition tallLayout :: layout where
  "tallLayout =
     \<lparr> rectLeft = 0, rectTop = 0, rectWidth = 500, rectHeight = 500,
       offsetWidth = 400, offsetHeight = 1000,
       contentRectWidth = 400, contentRectHeight = 1000 \<rparr>"

text \<open>A container of 100 by 100 with a content of 200 by 200.\<close>

definition smallLayout :: layout where
  "smallLayout =
     \<lparr> rectLeft = 0, rectTop = 0, rectWidth = 100, rectHeight = 100,
       offsetWidth = 200, offsetHeight = 200,
       contentRectWidth = 200, contentRectHeight = 200 \<rparr>"

text \<open>An instance with the default options, and options with a negative padding.\<close>

definition demoInst :: inst where
  "demoInst = fieldInitialisers (resolveOptions noOptions)"

definition negativePadding :: ImagePanZoomOptions where
  "negativePadding = noOptions\<lparr>o_boundsPadding := Some (- 1)\<rparr>"

definition largeInitialScale :: ImagePanZoomOptions where
  "largeInitialScale = noOptions\<lparr>o_initialScale := Some 10\<rparr>"

definition touchAt :: "int \<Rightarrow> real \<Rightarrow> real \<Rightarrow> Touch" where
  "touchAt i px py = \<lparr> clientX = px, clientY = py, touch_identifier = i \<rparr>"

definition touching :: "Touch list \<Rightarrow> TouchEvent" where
  "touching ts = \<lparr> touches = ts, changedTouches = ts \<rparr>"

text \<open>A wheel event at the centre of the container; an instance gliding to the right,
  and one flung with all three velocities;
  the clock of a display at 16 ms a frame; an instance whose options enable the
  rotation, and the same after a half turn; touch events of two fingers.\<close>

definition wheelUp :: WheelEvent where
  "wheelUp = \<lparr> clientX = 250, clientY = 250, deltaY = - 100 \<rparr>"








definition fingersTogether :: TouchEvent where
  "fingersTogether = touching [touchAt 1 50 50, touchAt 2 50 50]"

definition fingersSpread :: TouchEvent where
  "fingersSpread = touching [touchAt 1 40 50, touchAt 2 60 50]"

section \<open>Properties\<close>

subsection \<open>Auxiliary facts\<close>

lemma layouts:
  "rectWidth demoLayout = 500" "rectHeight demoLayout = 500"
  "offsetWidth demoLayout = 1000" "offsetHeight demoLayout = 1000"
  "rectLeft demoLayout = 0" "rectTop demoLayout = 0"
  "rectWidth tallLayout = 500" "rectHeight tallLayout = 500"
  "offsetWidth tallLayout = 400" "offsetHeight tallLayout = 1000"
  "rectWidth smallLayout = 100" "rectHeight smallLayout = 100"
  "offsetWidth smallLayout = 200" "offsetHeight smallLayout = 200"
  by (simp_all add: demoLayout_def tallLayout_def smallLayout_def)

lemma defaults:
  "minScale (resolveOptions noOptions) = 1 / 2"
  "maxScale (resolveOptions noOptions) = 3"
  "initialScale (resolveOptions noOptions) = 1"
  "boundsPadding (resolveOptions noOptions) = 1 / 10"
  "elastic (resolveOptions noOptions) = True"
  "friction (resolveOptions noOptions) = 92 / 100"
  "pinchSpeed (resolveOptions noOptions) = 1"
  by (simp_all add: resolveOptions_def noOptions_def nullish_def)

lemma demoInst_fields:
  "scale demoInst = 1" "x demoInst = 0" "y demoInst = 0" "rotation demoInst = 0"
  "elasticX demoInst = 0" "elasticY demoInst = 0"
  "options demoInst = resolveOptions noOptions"
  by (simp_all add: demoInst_def fieldInitialisers_def)

lemma hard_bounds:
  "calculateBoundaries g s False =
     (s, \<lparr> minX = minX (getSizes g s), maxX = maxX (getSizes g s),
           minY = minY (getSizes g s), maxY = maxY (getSizes g s) \<rparr>)"
  by (simp add: calculateBoundaries_def Let_def)

lemma clampPosition_hard:
  "clampPosition g s nx ny False =
     (s, min (maxX (getSizes g s)) (max (minX (getSizes g s)) nx),
         min (maxY (getSizes g s)) (max (minY (getSizes g s)) ny))"
  by (simp add: clampPosition_def hard_bounds)

lemma getSizes_cong:
  assumes "options s' = options s" and "scale s' = scale s" and "rotation s' = rotation s"
  shows "getSizes g s' = getSizes g s"
  unfolding getSizes_def assms by (rule refl)

lemma getSizes_fields:
  "fitsHorizontally (getSizes g s)
     = (contentWidth (getSizes g s) \<le> containerWidth (getSizes g s))"
  "fitsVertically (getSizes g s)
     = (contentHeight (getSizes g s) \<le> containerHeight (getSizes g s))"
  "sizesPadding (getSizes g s) = min (rectWidth g) (rectHeight g) * boundsPadding (options s)"
  "minX (getSizes g s) =
     (if fitsHorizontally (getSizes g s) then 0
      else - (contentWidth (getSizes g s) / 2 - containerWidth (getSizes g s) / 2)
           - sizesPadding (getSizes g s))"
  "maxX (getSizes g s) =
     (if fitsHorizontally (getSizes g s) then 0
      else contentWidth (getSizes g s) / 2 - containerWidth (getSizes g s) / 2
           + sizesPadding (getSizes g s))"
  "minY (getSizes g s) =
     (if fitsVertically (getSizes g s) then 0
      else - (contentHeight (getSizes g s) / 2 - containerHeight (getSizes g s) / 2)
           - sizesPadding (getSizes g s))"
  "maxY (getSizes g s) =
     (if fitsVertically (getSizes g s) then 0
      else contentHeight (getSizes g s) / 2 - containerHeight (getSizes g s) / 2
           + sizesPadding (getSizes g s))"
  unfolding getSizes_def Let_def
  by (simp_all only: ElementSizes.select_convs bounds.select_convs)

lemma getSizes_unrotated:
  assumes "rotation s = 0"
  shows "contentWidth (getSizes g s) = offsetWidth g * scale s"
    and "contentHeight (getSizes g s) = offsetHeight g * scale s"
    and "containerWidth (getSizes g s) = rectWidth g"
    and "containerHeight (getSizes g s) = rectHeight g"
  using assms by (simp_all add: getSizes_def Let_def)

lemma ordered_bounds:
  assumes "0 \<le> min (rectWidth g) (rectHeight g) * boundsPadding (options s)"
  shows "minX (getSizes g s) \<le> 0" and "0 \<le> maxX (getSizes g s)"
    and "minY (getSizes g s) \<le> 0" and "0 \<le> maxY (getSizes g s)"
proof -
  have p: "0 \<le> sizesPadding (getSizes g s)"
    using assms by (simp add: getSizes_fields(3))
  show "minX (getSizes g s) \<le> 0"
    using p by (simp add: getSizes_fields(4) getSizes_fields(1))
  show "0 \<le> maxX (getSizes g s)"
    using p by (simp add: getSizes_fields(5) getSizes_fields(1))
  show "minY (getSizes g s) \<le> 0"
    using p by (simp add: getSizes_fields(6) getSizes_fields(2))
  show "0 \<le> maxY (getSizes g s)"
    using p by (simp add: getSizes_fields(7) getSizes_fields(2))
qed

lemma applyTransform_fields:
  "scale (applyTransform g s u) = scale s"
  "rotation (applyTransform g s u) = rotation s"
  "options (applyTransform g s u) = options s"
  "elasticX (applyTransform g s u) = 0"
  "elasticY (applyTransform g s u) = 0"
  "x (applyTransform g s u) = min (maxX (getSizes g s)) (max (minX (getSizes g s)) (x s))"
  "y (applyTransform g s u) = min (maxY (getSizes g s)) (max (minY (getSizes g s)) (y s))"
  "styleTransform (applyTransform g s u) = getTransform (applyTransform g s u)"
  by (simp_all add: applyTransform_def clampPosition_hard Let_def getTransform_def)

lemma getSizes_applyTransform: "getSizes g (applyTransform g s u) = getSizes g s"
  by (rule getSizes_cong) (simp_all add: applyTransform_fields)

lemma stopAnimation_fields:
  "scale (stopAnimation s) = scale s"
  "rotation (stopAnimation s) = rotation s"
  "options (stopAnimation s) = options s"
  "x (stopAnimation s) = x s"
  "y (stopAnimation s) = y s"
  by (simp_all add: stopAnimation_def Let_def)

lemma negativePadding_instance:
  "scale (newImagePanZoom negativePadding smallLayout) = 1"
  "rotation (newImagePanZoom negativePadding smallLayout) = 0"
  "x (newImagePanZoom negativePadding smallLayout) = - 50"
  "y (newImagePanZoom negativePadding smallLayout) = - 50"
  "boundsPadding (options (newImagePanZoom negativePadding smallLayout)) = - 1"
  "initialScale (options (newImagePanZoom negativePadding smallLayout)) = 1"
  by (simp_all add: newImagePanZoom_def construct_def init_def applyTransform_fields
      getSizes_fields getSizes_unrotated fieldInitialisers_def resolveOptions_def
      negativePadding_def noOptions_def nullish_def layouts)

subsection \<open>Pivot preservation\<close>

lemma applyAroundPivot_fields:
  "scale (applyAroundPivot g s px py ns nr) = ns"
  "rotation (applyAroundPivot g s px py ns nr) = nr"
  "options (applyAroundPivot g s px py ns nr) = options s"
  by (simp_all add: applyAroundPivot_def Let_def)

lemma applyAroundPivot_xy:
  "x (applyAroundPivot g s px py ns nr) =
     px - (rectLeft g + rectWidth g / 2)
       - (fst (worldToLocal g s px py) * cos (nr * pi / 180)
          - snd (worldToLocal g s px py) * sin (nr * pi / 180)) * ns"
  "y (applyAroundPivot g s px py ns nr) =
     py - (rectTop g + rectHeight g / 2)
       - (fst (worldToLocal g s px py) * sin (nr * pi / 180)
          + snd (worldToLocal g s px py) * cos (nr * pi / 180)) * ns"
  by (simp_all add: applyAroundPivot_def worldToLocal_def Let_def)

lemma rotate_back:
  fixes c sn :: real
  assumes "sn * sn + c * c = 1" and "ns \<noteq> 0"
  shows "(((lx * c - ly * sn) * ns) * c + ((lx * sn + ly * c) * ns) * sn) / ns = lx"
    and "(- ((lx * c - ly * sn) * ns) * sn + ((lx * sn + ly * c) * ns) * c) / ns = ly"
proof -
  have "((lx * c - ly * sn) * ns) * c + ((lx * sn + ly * c) * ns) * sn
          = lx * ns * (sn * sn + c * c)"
    by (simp add: algebra_simps)
  then show "(((lx * c - ly * sn) * ns) * c + ((lx * sn + ly * c) * ns) * sn) / ns = lx"
    using assms by simp
  have "- ((lx * c - ly * sn) * ns) * sn + ((lx * sn + ly * c) * ns) * c
          = ly * ns * (sn * sn + c * c)"
    by (simp add: algebra_simps)
  then show "(- ((lx * c - ly * sn) * ns) * sn + ((lx * sn + ly * c) * ns) * c) / ns = ly"
    using assms by simp
qed

lemma worldToLocal_after_pivot:
  assumes "ns \<noteq> 0"
  shows "worldToLocal g (applyAroundPivot g s px py ns nr) px py = worldToLocal g s px py"
proof -
  obtain lx ly where l: "worldToLocal g s px py = (lx, ly)"
    by (cases "worldToLocal g s px py")
  let ?c = "cos (nr * pi / 180)" and ?sn = "sin (nr * pi / 180)"
  have u: "?sn * ?sn + ?c * ?c = 1"
    using sin_cos_squared_add[of "nr * pi / 180"] by (simp add: power2_eq_square)
  have "worldToLocal g (applyAroundPivot g s px py ns nr) px py =
     ((((lx * ?c - ly * ?sn) * ns) * ?c + ((lx * ?sn + ly * ?c) * ns) * ?sn) / ns,
      (- ((lx * ?c - ly * ?sn) * ns) * ?sn + ((lx * ?sn + ly * ?c) * ns) * ?c) / ns)"
    unfolding worldToLocal_def[of g "applyAroundPivot g s px py ns nr"]
    by (simp add: applyAroundPivot_fields applyAroundPivot_xy l Let_def)
  then show ?thesis
    using rotate_back[OF u assms] l by simp
qed

text \<open>
  C1. Pivot preservation. For a transform with a positive scale, a pivot point of the
  screen and a target with a positive new scale and any new rotation:
  \<open>applyAroundPivot\<close> leaves the instance with the new scale and the new rotation, and
  with a translation such that the point of the content that lay under the pivot
  before the call (its coordinates by \<open>worldToLocal\<close> in the old transform) is shown by
  the new transform (new scale, new rotation, new translation) at the pivot again; it
  is still the point of the content that \<open>worldToLocal\<close> finds under the pivot. Over the
  real numbers the equality is exact.
\<close>

theorem pivot_preserved:
  assumes "0 < scale s" and "0 < newScale"
  shows "scale (applyAroundPivot g s px py newScale newRotation) = newScale
       \<and> rotation (applyAroundPivot g s px py newScale newRotation) = newRotation
       \<and> (case worldToLocal g s px py of (lx, ly) \<Rightarrow>
            localToWorld g (getTransform (applyAroundPivot g s px py newScale newRotation)) lx ly)
           = (px, py)
       \<and> worldToLocal g (applyAroundPivot g s px py newScale newRotation) px py
           = worldToLocal g s px py"
proof -
  have "scale (applyAroundPivot g s px py newScale newRotation) = newScale"
    and "rotation (applyAroundPivot g s px py newScale newRotation) = newRotation"
    by (simp_all add: applyAroundPivot_fields)
  moreover have "(case worldToLocal g s px py of (lx, ly) \<Rightarrow>
            localToWorld g (getTransform (applyAroundPivot g s px py newScale newRotation)) lx ly)
           = (px, py)"
    by (simp add: localToWorld_def getTransform_def applyAroundPivot_fields applyAroundPivot_xy
        split_beta Let_def)
  moreover have "worldToLocal g (applyAroundPivot g s px py newScale newRotation) px py
           = worldToLocal g s px py"
    using assms by (simp add: worldToLocal_after_pivot)
  ultimately show ?thesis by simp
qed

theorem pivot_preserved_witness:
  "0 < scale demoInst \<and> (0::real) < 2
   \<and> scale (applyAroundPivot demoLayout demoInst 100 200 2 90) = 2
   \<and> rotation (applyAroundPivot demoLayout demoInst 100 200 2 90) = 90
   \<and> (case worldToLocal demoLayout demoInst 100 200 of (lx, ly) \<Rightarrow>
            localToWorld demoLayout (getTransform (applyAroundPivot demoLayout demoInst 100 200 2 90)) lx ly)
           = (100, 200)
   \<and> worldToLocal demoLayout (applyAroundPivot demoLayout demoInst 100 200 2 90) 100 200
           = worldToLocal demoLayout demoInst 100 200"
  using pivot_preserved[of demoInst 2 demoLayout 100 200 90]
  by (simp add: demoInst_fields)

subsection \<open>Coordinate conversion\<close>

text \<open>
  C2. For a transform with a positive scale and a fixed layout, \<open>containerToImage\<close> and
  \<open>imageToContainer\<close> are inverse to each other, whatever the rotation is. Over the real
  numbers the equalities are exact.
\<close>

theorem container_image_inverse:
  assumes "0 < scale s"
  shows "(case containerToImage g s px py of (ix, iy) \<Rightarrow> imageToContainer g s ix iy) = (px, py)
       \<and> (case imageToContainer g s qx qy of (cx, cy) \<Rightarrow> containerToImage g s cx cy) = (qx, qy)"
  using assms by (simp add: containerToImage_def imageToContainer_def Let_def field_simps)

theorem container_image_inverse_witness:
  "0 < scale (demoInst\<lparr>scale := 2, rotation := 30\<rparr>)
   \<and> (case containerToImage demoLayout (demoInst\<lparr>scale := 2, rotation := 30\<rparr>) 100 200 of
         (ix, iy) \<Rightarrow> imageToContainer demoLayout (demoInst\<lparr>scale := 2, rotation := 30\<rparr>) ix iy)
       = (100, 200)
   \<and> (case imageToContainer demoLayout (demoInst\<lparr>scale := 2, rotation := 30\<rparr>) 7 9 of
         (cx, cy) \<Rightarrow> containerToImage demoLayout (demoInst\<lparr>scale := 2, rotation := 30\<rparr>) cx cy)
       = (7, 9)"
  using container_image_inverse[of "demoInst\<lparr>scale := 2, rotation := 30\<rparr>" demoLayout 100 200 7 9]
  by simp

subsection \<open>Clamping on an axis that fits\<close>

text \<open>
  C3, as amended. If the rotated footprint of the content is at most the size of the
  container on an axis, \<open>clampPosition\<close> returns on that axis, for every input position:
  exactly 0 in the variant without elasticity, and in the elastic variant when the
  option \<open>elastic\<close> is off or the other axis fits too; otherwise (elastic variant, the
  other axis does not fit) the negated elastic offset that the instance holds for the
  fitting axis, which is 0 when that offset is 0, as it is after every
  \<open>applyTransform\<close>.
\<close>

theorem clampPosition_fitting_axis:
  "(contentWidth (getSizes g s) \<le> containerWidth (getSizes g s) \<longrightarrow>
      fst (snd (clampPosition g s nextX nextY useElastic)) =
        (if useElastic \<and> elastic (options s) \<and> \<not> fitsVertically (getSizes g s)
         then - elasticX s else 0))
   \<and> (contentHeight (getSizes g s) \<le> containerHeight (getSizes g s) \<longrightarrow>
      snd (snd (clampPosition g s nextX nextY useElastic)) =
        (if useElastic \<and> elastic (options s) \<and> \<not> fitsHorizontally (getSizes g s)
         then - elasticY s else 0))"
proof -
  have fx: "fitsHorizontally (getSizes g s)
              \<Longrightarrow> minX (getSizes g s) = 0 \<and> maxX (getSizes g s) = 0"
    by (simp add: getSizes_fields(4,5))
  have fy: "fitsVertically (getSizes g s)
              \<Longrightarrow> minY (getSizes g s) = 0 \<and> maxY (getSizes g s) = 0"
    by (simp add: getSizes_fields(6,7))
  show ?thesis
    unfolding getSizes_fields(1,2)[symmetric]
    using fx fy
    by (auto simp: clampPosition_def calculateBoundaries_def Let_def)
qed

theorem clampPosition_fitting_axis_witness:
  "contentWidth (getSizes tallLayout demoInst) \<le> containerWidth (getSizes tallLayout demoInst)
   \<and> fst (snd (clampPosition tallLayout demoInst 70 80 True)) = 0
   \<and> contentHeight (getSizes tallLayout (demoInst\<lparr>scale := 1 / 2\<rparr>))
        \<le> containerHeight (getSizes tallLayout (demoInst\<lparr>scale := 1 / 2\<rparr>))
   \<and> snd (snd (clampPosition tallLayout (demoInst\<lparr>scale := 1 / 2\<rparr>) 70 80 False)) = 0"
  using clampPosition_fitting_axis[of tallLayout demoInst 70 80 True]
    clampPosition_fitting_axis[of tallLayout "demoInst\<lparr>scale := 1 / 2\<rparr>" 70 80 False]
  by (simp add: getSizes_unrotated demoInst_fields layouts)

text \<open>
  C3 as stated fails: with the content fitting horizontally and not vertically, and an
  elastic offset of 5 on the x axis, the elastic variant returns -5 on the x axis.
\<close>

theorem clampPosition_fitting_axis_counterexample:
  "contentWidth (getSizes tallLayout (demoInst\<lparr>elasticX := 5\<rparr>))
     \<le> containerWidth (getSizes tallLayout (demoInst\<lparr>elasticX := 5\<rparr>))
   \<and> fst (snd (clampPosition tallLayout (demoInst\<lparr>elasticX := 5\<rparr>) 0 0 True)) = - 5
   \<and> fst (snd (clampPosition tallLayout (demoInst\<lparr>elasticX := 5\<rparr>) 0 0 True)) \<noteq> 0"
  by (simp add: clampPosition_def calculateBoundaries_def Let_def getSizes_fields
      getSizes_unrotated demoInst_fields defaults layouts)

subsection \<open>What \<open>applyTransform\<close> publishes\<close>

lemma clamp_idem: "min hi (max lo (min hi (max lo v))) = min hi (max lo v)" for lo hi v :: real
  by (simp add: min_def max_def)

text \<open>
  C7, as amended. Every call of \<open>applyTransform\<close> clamps the translation with the hard
  bounds and then sets both elastic offsets to 0: in the state it leaves, the
  translation is unchanged by a further hard clamp, both elastic offsets are zero, and
  the transform written to the style is the one of the instance. When the padding of
  the bounds is not negative (the option \<open>boundsPadding\<close> times the smaller side of the
  container), the translation lies within the hard bounds of that state.
\<close>

theorem applyTransform_published:
  "(case calculateBoundaries g (applyTransform g s u) False of
      (s', b) \<Rightarrow>
        x s' = min (maxX b) (max (minX b) (x s'))
        \<and> y s' = min (maxY b) (max (minY b) (y s'))
        \<and> elasticX s' = 0 \<and> elasticY s' = 0
        \<and> styleTransform s' = getTransform s'
        \<and> (0 \<le> min (rectWidth g) (rectHeight g) * boundsPadding (options s) \<longrightarrow>
             minX b \<le> x s' \<and> x s' \<le> maxX b \<and> minY b \<le> y s' \<and> y s' \<le> maxY b))"
proof -
  let ?s = "applyTransform g s u"
  have b: "calculateBoundaries g ?s False =
     (?s, \<lparr> minX = minX (getSizes g s), maxX = maxX (getSizes g s),
           minY = minY (getSizes g s), maxY = maxY (getSizes g s) \<rparr>)"
    by (simp add: hard_bounds getSizes_applyTransform)
  have fx: "x ?s = min (maxX (getSizes g s)) (max (minX (getSizes g s)) (x ?s))"
    unfolding applyTransform_fields(6) by (simp only: clamp_idem)
  have fy: "y ?s = min (maxY (getSizes g s)) (max (minY (getSizes g s)) (y ?s))"
    unfolding applyTransform_fields(7) by (simp only: clamp_idem)
  have e: "elasticX ?s = 0" "elasticY ?s = 0" "styleTransform ?s = getTransform ?s"
    by (simp_all add: applyTransform_fields)
  have inside: "minX (getSizes g s) \<le> x ?s \<and> x ?s \<le> maxX (getSizes g s)
                \<and> minY (getSizes g s) \<le> y ?s \<and> y ?s \<le> maxY (getSizes g s)"
    if "0 \<le> min (rectWidth g) (rectHeight g) * boundsPadding (options s)"
    using ordered_bounds[OF that] by (simp add: applyTransform_fields)
  show ?thesis
    unfolding b using fx fy e inside by simp
qed

theorem applyTransform_published_witness:
  "0 \<le> min (rectWidth demoLayout) (rectHeight demoLayout)
          * boundsPadding (options (demoInst\<lparr>x := 1000\<rparr>))
   \<and> (case calculateBoundaries demoLayout
              (applyTransform demoLayout (demoInst\<lparr>x := 1000\<rparr>) False) False of
         (s', b) \<Rightarrow> minX b \<le> x s' \<and> x s' \<le> maxX b \<and> minY b \<le> y s' \<and> y s' \<le> maxY b
                    \<and> elasticX s' = 0 \<and> elasticY s' = 0
                    \<and> styleTransform s' = getTransform s')"
proof -
  have p: "0 \<le> min (rectWidth demoLayout) (rectHeight demoLayout)
          * boundsPadding (options (demoInst\<lparr>x := 1000\<rparr>))"
    by (simp add: demoInst_fields defaults layouts)
  show ?thesis
    using applyTransform_published[of demoLayout "demoInst\<lparr>x := 1000\<rparr>" False] p
    by (simp add: split_beta)
qed

text \<open>
  C7 as stated fails: with \<open>boundsPadding = -1\<close>, a container of 100 by 100 and a content
  of 200 by 200, the hard bounds on the x axis are 50 (lower) and -50 (upper);
  \<open>applyTransform\<close> leaves the translation at -50, below the lower bound.
\<close>

theorem applyTransform_published_counterexample:
  "x (applyTransform smallLayout (newImagePanZoom negativePadding smallLayout) False) = - 50
   \<and> minX (snd (calculateBoundaries smallLayout
        (applyTransform smallLayout (newImagePanZoom negativePadding smallLayout) False) False)) = 50
   \<and> \<not> minX (snd (calculateBoundaries smallLayout
        (applyTransform smallLayout (newImagePanZoom negativePadding smallLayout) False) False))
       \<le> x (applyTransform smallLayout (newImagePanZoom negativePadding smallLayout) False)"
  by (simp add: hard_bounds getSizes_applyTransform applyTransform_fields
      getSizes_fields getSizes_unrotated negativePadding_instance layouts)

subsection \<open>Clamping the scale\<close>

text \<open>
  C9. Under the precondition \<open>minScale \<le> maxScale\<close>, \<open>clampScale\<close> of any input lies
  between \<open>minScale\<close> and \<open>maxScale\<close>, and an input that already lies in that range is
  returned unchanged.
\<close>

theorem clampScale_range:
  assumes "minScale (options s) \<le> maxScale (options s)"
  shows "minScale (options s) \<le> clampScale s v \<and> clampScale s v \<le> maxScale (options s)
         \<and> (minScale (options s) \<le> v \<and> v \<le> maxScale (options s) \<longrightarrow> clampScale s v = v)"
  using assms by (auto simp: clampScale_def)

theorem clampScale_range_witness:
  "minScale (options demoInst) \<le> maxScale (options demoInst)
   \<and> minScale (options demoInst) \<le> clampScale demoInst 7
   \<and> clampScale demoInst 7 \<le> maxScale (options demoInst)
   \<and> minScale (options demoInst) \<le> 2 \<and> 2 \<le> maxScale (options demoInst)
   \<and> clampScale demoInst 2 = 2"
  using clampScale_range[of demoInst 7] clampScale_range[of demoInst 2]
  by (simp add: demoInst_fields defaults)

subsection \<open>Reset\<close>

text \<open>
  C10, as amended. Whatever the state of the instance was, \<open>reset\<close> leaves it with the
  initial scale and the rotation 0, and, when the padding of the bounds is not
  negative (the option \<open>boundsPadding\<close> times the smaller side of the container), with
  the translation (0, 0).
\<close>

theorem reset_transform:
  "scale (reset g s) = initialScale (options s) \<and> rotation (reset g s) = 0
   \<and> (0 \<le> min (rectWidth g) (rectHeight g) * boundsPadding (options s) \<longrightarrow>
        x (reset g s) = 0 \<and> y (reset g s) = 0)"
proof -
  let ?s = "(stopAnimation s)\<lparr>scale := initialScale (options s), x := 0, y := 0, rotation := 0,
          velocityX := 0, velocityY := 0, velocityScale := 0, elasticX := 0, elasticY := 0\<rparr>"
  have o: "options ?s = options s"
    by (simp add: stopAnimation_fields)
  have "x (reset g s) = 0 \<and> y (reset g s) = 0"
    if "0 \<le> min (rectWidth g) (rectHeight g) * boundsPadding (options s)"
  proof -
    from that o have "0 \<le> min (rectWidth g) (rectHeight g) * boundsPadding (options ?s)"
      by simp
    from ordered_bounds[OF this] show ?thesis
      unfolding reset_def by (simp add: applyTransform_fields)
  qed
  moreover have "scale (reset g s) = initialScale (options s) \<and> rotation (reset g s) = 0"
    unfolding reset_def by (simp add: applyTransform_fields)
  ultimately show ?thesis by blast
qed

theorem reset_transform_witness:
  "0 \<le> min (rectWidth demoLayout) (rectHeight demoLayout)
          * boundsPadding (options (demoInst\<lparr>scale := 2, x := 40, y := - 30, rotation := 90\<rparr>))
   \<and> scale (reset demoLayout (demoInst\<lparr>scale := 2, x := 40, y := - 30, rotation := 90\<rparr>)) = 1
   \<and> x (reset demoLayout (demoInst\<lparr>scale := 2, x := 40, y := - 30, rotation := 90\<rparr>)) = 0
   \<and> y (reset demoLayout (demoInst\<lparr>scale := 2, x := 40, y := - 30, rotation := 90\<rparr>)) = 0
   \<and> rotation (reset demoLayout (demoInst\<lparr>scale := 2, x := 40, y := - 30, rotation := 90\<rparr>)) = 0"
  using reset_transform[of demoLayout "demoInst\<lparr>scale := 2, x := 40, y := - 30, rotation := 90\<rparr>"]
  by (simp add: demoInst_fields defaults layouts)

text \<open>
  C10 as stated fails: with \<open>boundsPadding = -1\<close>, a container of 100 by 100 and a
  content of 200 by 200, \<open>reset\<close> leaves the translation at -50 on the x axis.
\<close>

theorem reset_transform_counterexample:
  "x (reset smallLayout (newImagePanZoom negativePadding smallLayout)) = - 50
   \<and> x (reset smallLayout (newImagePanZoom negativePadding smallLayout)) \<noteq> 0"
  by (simp add: reset_def applyTransform_fields stopAnimation_fields getSizes_fields
      getSizes_unrotated negativePadding_instance layouts)

subsection \<open>Fields that the operations leave alone\<close>

lemma calculateBoundaries_frame:
  "options (fst (calculateBoundaries g s u)) = options s"
  "scale (fst (calculateBoundaries g s u)) = scale s"
  "rotation (fst (calculateBoundaries g s u)) = rotation s"
  "velocityX (fst (calculateBoundaries g s u)) = velocityX s"
  "velocityY (fst (calculateBoundaries g s u)) = velocityY s"
  "velocityScale (fst (calculateBoundaries g s u)) = velocityScale s"
  by (simp_all add: calculateBoundaries_def Let_def)

lemma clampPosition_frame:
  "options (fst (clampPosition g s nx ny u)) = options s"
  "scale (fst (clampPosition g s nx ny u)) = scale s"
  "rotation (fst (clampPosition g s nx ny u)) = rotation s"
  "velocityX (fst (clampPosition g s nx ny u)) = velocityX s"
  "velocityY (fst (clampPosition g s nx ny u)) = velocityY s"
  "velocityScale (fst (clampPosition g s nx ny u)) = velocityScale s"
  by (simp_all add: clampPosition_def split_beta calculateBoundaries_frame)

lemma scheduleKinetic_frame:
  "options (scheduleKinetic s) = options s"
  "scale (scheduleKinetic s) = scale s"
  "velocityX (scheduleKinetic s) = velocityX s"
  "velocityY (scheduleKinetic s) = velocityY s"
  "velocityScale (scheduleKinetic s) = velocityScale s"
  by (simp_all add: scheduleKinetic_def requestAnimationFrame_def)

lemma animateElasticReturn_frame:
  "options (animateElasticReturn g s now) = options s"
  "scale (animateElasticReturn g s now) = scale s"
  by (simp_all add: animateElasticReturn_def Let_def hard_bounds requestAnimationFrame_def
      stopAnimation_fields)

lemma clampScale_inRange:
  assumes "validOptions (options s)"
  shows "minScale (options s) \<le> clampScale s v" and "clampScale s v \<le> maxScale (options s)"
  using assms by (auto simp: clampScale_def validOptions_def)


subsection \<open>The pinch\<close>


text \<open>Below zero the remainder keeps the sign of its argument: a rotation of -190 is
  left at -190 by the normalisation of the pinch.\<close>

lemma js_rem_negative: "js_rem (- 190 + 180) 360 - 180 = - 190"
proof -
  have "\<lceil>- (1 / 36 :: real)\<rceil> = 0"
    by (simp add: ceiling_eq_iff)
  then show ?thesis
    by (simp add: js_rem_def js_trunc_def)
qed

lemma pinchTouches_frame:
  "options (fst (pinchTouches s t0 t1)) = options s"
  "scale (fst (pinchTouches s t0 t1)) = scale s"
  "rotation (fst (pinchTouches s t0 t1)) = rotation s"
  "initialRotation (fst (pinchTouches s t0 t1)) = initialRotation s"
  "touchStartAngle (fst (pinchTouches s t0 t1)) = touchStartAngle s"
  "touchStartDistance (fst (pinchTouches s t0 t1)) = touchStartDistance s"
  "touchStartScale (fst (pinchTouches s t0 t1)) = touchStartScale s"
  by (simp_all add: pinchTouches_def split: option.splits)

lemma pinchRotation_cong:
  assumes "options s' = options s" and "rotation s' = rotation s"
    and "initialRotation s' = initialRotation s" and "touchStartAngle s' = touchStartAngle s"
  shows "pinchRotation s' a = pinchRotation s a"
  unfolding pinchRotation_def assms by (rule refl)

lemma pinchScale_cong:
  assumes "options s' = options s" and "touchStartDistance s' = touchStartDistance s"
    and "touchStartScale s' = touchStartScale s"
  shows "pinchScale s' d = pinchScale s d"
proof -
  have "js_clampScale s' v = js_clampScale s v" for v
    using assms(1) by (cases v) (simp_all add: clampScale_def)
  then show ?thesis by (simp add: pinchScale_def assms)
qed

lemma handleTouchMove_pinch:
  assumes "isPinching s" and "touches e = [t0, t1]"
  shows "handleTouchMove g s e now =
     (case pinchScale s (pinchDistance s t0 t1) of
        Num clampedScale \<Rightarrow>
          Some (applyTransform g
                 (applyAroundPivot g
                    ((fst (pinchTouches s t0 t1))\<lparr>touchPoints :=
                       (touchPoints (fst (pinchTouches s t0 t1)))
                         (touch_identifier (fst (snd (pinchTouches s t0 t1))) \<mapsto>
                            (clientX (fst (snd (pinchTouches s t0 t1))),
                             clientY (fst (snd (pinchTouches s t0 t1)))),
                          touch_identifier (snd (snd (pinchTouches s t0 t1))) \<mapsto>
                            (clientX (snd (snd (pinchTouches s t0 t1))),
                             clientY (snd (snd (pinchTouches s t0 t1)))))\<rparr>)
                    (fst (getCenter (clientX (fst (snd (pinchTouches s t0 t1))))
                                    (clientY (fst (snd (pinchTouches s t0 t1))))
                                    (clientX (snd (snd (pinchTouches s t0 t1))))
                                    (clientY (snd (snd (pinchTouches s t0 t1))))))
                    (snd (getCenter (clientX (fst (snd (pinchTouches s t0 t1))))
                                    (clientY (fst (snd (pinchTouches s t0 t1))))
                                    (clientX (snd (snd (pinchTouches s t0 t1))))
                                    (clientY (snd (snd (pinchTouches s t0 t1))))))
                    clampedScale (pinchRotation s (pinchAngle s t0 t1)))
                 False)
      | _ \<Rightarrow> None)"
proof -
  let ?s1 = "fst (pinchTouches s t0 t1)"
  let ?s2 = "?s1\<lparr>touchPoints := (touchPoints ?s1)
                         (touch_identifier (fst (snd (pinchTouches s t0 t1))) \<mapsto>
                            (clientX (fst (snd (pinchTouches s t0 t1))),
                             clientY (fst (snd (pinchTouches s t0 t1)))),
                          touch_identifier (snd (snd (pinchTouches s t0 t1))) \<mapsto>
                            (clientX (snd (snd (pinchTouches s t0 t1))),
                             clientY (snd (snd (pinchTouches s t0 t1)))))\<rparr>"
  have r: "pinchRotation ?s2 a = pinchRotation s a" for a
    by (rule pinchRotation_cong) (simp_all add: pinchTouches_frame)
  have c: "pinchScale ?s2 d = pinchScale s d" for d
    by (rule pinchScale_cong) (simp_all add: pinchTouches_frame)
  show ?thesis
    using assms
    by (simp add: handleTouchMove_def Let_def split_beta r c pinchDistance_def pinchAngle_def
        cong: jsnum.case_cong)
qed




lemma handleTouchStart_pinch:
  "isPinching (handleTouchStart s (touching [a, b]) now)"
  "touchIds (handleTouchStart s (touching [a, b]) now)
     = (Some (touch_identifier a), Some (touch_identifier b))"
  "touchStartDistance (handleTouchStart s (touching [a, b]) now)
     = getDistance (clientX a) (clientY a) (clientX b) (clientY b)"
  "touchStartAngle (handleTouchStart s (touching [a, b]) now)
     = getAngle (clientX a) (clientY a) (clientX b) (clientY b)"
  "touchStartScale (handleTouchStart s (touching [a, b]) now) = scale s"
  "initialRotation (handleTouchStart s (touching [a, b]) now) = rotation s"
  "options (handleTouchStart s (touching [a, b]) now) = options s"
  "scale (handleTouchStart s (touching [a, b]) now) = scale s"
  "rotation (handleTouchStart s (touching [a, b]) now) = rotation s"
  by (simp_all add: handleTouchStart_def touching_def)

lemma touchAt_fields:
  "clientX (touchAt i px py) = px" "clientY (touchAt i px py) = py"
  "touch_identifier (touchAt i px py) = i"
  by (simp_all add: touchAt_def)

lemma pinchTouches_tracked:
  assumes "touchIds s = (Some 1, Some 2)"
  shows "pinchTouches s (touchAt 1 ax ay) (touchAt 2 bx by)
           = (s, touchAt 1 ax ay, touchAt 2 bx by)"
  using assms by (simp add: pinchTouches_def findTouch_def touchAt_fields)





text \<open>
  C6, as amended. There is no guard against a start distance of zero. When two fingers
  start at the same point, a pinch touch-move with the fingers apart (and a positive
  start scale and pinch speed) computes an infinite scale, which the clamp turns into
  \<open>maxScale\<close>: the scale stays finite and jumps to the maximum. A pinch touch-move with
  the fingers still at one point computes 0 / 0 and writes \<open>NaN\<close> into the scale.
\<close>

theorem degenerate_pinch:
  assumes "isPinching s" and "touches e = [t0, t1]" and "touchStartDistance s = 0"
  shows "(0 < pinchDistance s t0 t1 \<and> 0 < touchStartScale s \<and> 0 < pinchSpeed (options s) \<longrightarrow>
            (\<exists>s'. handleTouchMove g s e now = Some s' \<and> scale s' = maxScale (options s)))
       \<and> (pinchDistance s t0 t1 = 0 \<longrightarrow> handleTouchMove g s e now = None)"
proof (intro conjI impI)
  assume "0 < pinchDistance s t0 t1 \<and> 0 < touchStartScale s \<and> 0 < pinchSpeed (options s)"
  then have "pinchScale s (pinchDistance s t0 t1) = Num (maxScale (options s))"
    using assms(3) by (simp add: pinchScale_def js_div_def)
  then show "\<exists>s'. handleTouchMove g s e now = Some s' \<and> scale s' = maxScale (options s)"
    unfolding handleTouchMove_pinch[OF assms(1,2)]
    by (simp add: applyTransform_fields applyAroundPivot_fields)
next
  assume "pinchDistance s t0 t1 = 0"
  then have "pinchScale s (pinchDistance s t0 t1) = NaN"
    using assms(3) by (simp add: pinchScale_def js_div_def)
  then show "handleTouchMove g s e now = None"
    unfolding handleTouchMove_pinch[OF assms(1,2)] by simp
qed

theorem degenerate_pinch_witness:
  "isPinching (handleTouchStart demoInst fingersTogether 0)
   \<and> touches fingersSpread = [touchAt 1 40 50, touchAt 2 60 50]
   \<and> touchStartDistance (handleTouchStart demoInst fingersTogether 0) = 0
   \<and> 0 < pinchDistance (handleTouchStart demoInst fingersTogether 0)
           (touchAt 1 40 50) (touchAt 2 60 50)
   \<and> 0 < touchStartScale (handleTouchStart demoInst fingersTogether 0)
   \<and> 0 < pinchSpeed (options (handleTouchStart demoInst fingersTogether 0))
   \<and> (\<exists>s'. handleTouchMove demoLayout (handleTouchStart demoInst fingersTogether 0)
              fingersSpread 16 = Some s'
            \<and> scale s' = maxScale (options (handleTouchStart demoInst fingersTogether 0)))
   \<and> touches fingersTogether = [touchAt 1 50 50, touchAt 2 50 50]
   \<and> pinchDistance (handleTouchStart demoInst fingersTogether 0)
        (touchAt 1 50 50) (touchAt 2 50 50) = 0
   \<and> handleTouchMove demoLayout (handleTouchStart demoInst fingersTogether 0)
        fingersTogether 16 = None"
proof -
  let ?s = "handleTouchStart demoInst fingersTogether 0"
  have p: "isPinching ?s"
    by (simp add: fingersTogether_def handleTouchStart_pinch)
  have e1: "touches fingersSpread = [touchAt 1 40 50, touchAt 2 60 50]"
    by (simp add: fingersSpread_def touching_def)
  have e2: "touches fingersTogether = [touchAt 1 50 50, touchAt 2 50 50]"
    by (simp add: fingersTogether_def touching_def)
  have z: "touchStartDistance ?s = 0"
    by (simp add: fingersTogether_def handleTouchStart_pinch touchAt_fields getDistance_def
        hypot_def)
  have ids: "touchIds ?s = (Some 1, Some 2)"
    by (simp add: fingersTogether_def handleTouchStart_pinch touchAt_fields)
  have d1: "0 < pinchDistance ?s (touchAt 1 40 50) (touchAt 2 60 50)"
    by (simp add: pinchDistance_def pinchTouches_tracked[OF ids] touchAt_fields getDistance_def
        hypot_def)
  have d2: "pinchDistance ?s (touchAt 1 50 50) (touchAt 2 50 50) = 0"
    by (simp add: pinchDistance_def pinchTouches_tracked[OF ids] touchAt_fields getDistance_def
        hypot_def)
  have o: "0 < touchStartScale ?s" "0 < pinchSpeed (options ?s)"
    by (simp_all add: fingersTogether_def handleTouchStart_pinch demoInst_fields defaults)
  show ?thesis
    using degenerate_pinch[OF p e1 z, of demoLayout 16] degenerate_pinch[OF p e2 z, of demoLayout 16]
      p e1 e2 z d1 d2 o
    by simp
qed

text \<open>
  C6 as stated fails: two fingers start at the same point at scale 1; when they move
  apart, the pinch move sets the scale to the maximum 3.
\<close>

theorem degenerate_pinch_counterexample:
  "touchStartDistance (handleTouchStart demoInst fingersTogether 0) = 0
   \<and> scale (handleTouchStart demoInst fingersTogether 0) = 1
   \<and> map_option scale
        (handleTouchMove demoLayout (handleTouchStart demoInst fingersTogether 0) fingersSpread 16)
       = Some 3"
proof -
  let ?s = "handleTouchStart demoInst fingersTogether 0"
  have p: "isPinching ?s"
    by (simp add: fingersTogether_def handleTouchStart_pinch)
  have e1: "touches fingersSpread = [touchAt 1 40 50, touchAt 2 60 50]"
    by (simp add: fingersSpread_def touching_def)
  have z: "touchStartDistance ?s = 0"
    by (simp add: fingersTogether_def handleTouchStart_pinch touchAt_fields getDistance_def
        hypot_def)
  have sc: "scale ?s = 1"
    by (simp add: fingersTogether_def handleTouchStart_pinch demoInst_fields)
  have ids: "touchIds ?s = (Some 1, Some 2)"
    by (simp add: fingersTogether_def handleTouchStart_pinch touchAt_fields)
  have d1: "0 < pinchDistance ?s (touchAt 1 40 50) (touchAt 2 60 50)"
    by (simp add: pinchDistance_def pinchTouches_tracked[OF ids] touchAt_fields getDistance_def
        hypot_def)
  have o: "touchStartScale ?s = 1" "pinchSpeed (options ?s) = 1" "maxScale (options ?s) = 3"
    by (simp_all add: fingersTogether_def handleTouchStart_pinch demoInst_fields defaults)
  have "pinchScale ?s (pinchDistance ?s (touchAt 1 40 50) (touchAt 2 60 50)) = Num 3"
    using d1 z o by (simp add: pinchScale_def js_div_def)
  then have "map_option scale (handleTouchMove demoLayout ?s fingersSpread 16) = Some 3"
    unfolding handleTouchMove_pinch[OF p e1]
    by (simp add: applyTransform_fields applyAroundPivot_fields)
  then show ?thesis using z sc by simp
qed

subsection \<open>The kinetic run\<close>











lemma calculateBoundaries_handles:
  "rafSeq (fst (calculateBoundaries g s u)) = rafSeq s"
  "animationFrameId (fst (calculateBoundaries g s u)) = animationFrameId s"
  by (simp_all add: calculateBoundaries_def Let_def)

lemma applyTransform_handles:
  "rafSeq (applyTransform g s u) = rafSeq s"
  "animationFrameId (applyTransform g s u) = animationFrameId s"
  by (simp_all add: applyTransform_def clampPosition_hard Let_def)

text \<open>A tick of the method of the class schedules no further frame: the counter of the
  frame handles and the handle of the instance stay as they are.\<close>

lemma animateKinetic_schedules_nothing:
  assumes "\<not> kineticStopped s"
  shows "rafSeq (animateKinetic g s now) = rafSeq s"
    and "animationFrameId (animateKinetic g s now) = animationFrameId s"
  using assms
  by (simp_all add: animateKinetic_def kineticTick_def Let_def split_beta applyTransform_handles
      clampPosition_def calculateBoundaries_handles)

subsection \<open>The range of the scale\<close>

lemma keepsI:
  assumes "options s' = options s"
    and "validOptions (options s) \<Longrightarrow> scaleInRange s \<Longrightarrow>
           minScale (options s) \<le> scale s' \<and> scale s' \<le> maxScale (options s)"
  shows "keeps s s'"
  using assms by (simp add: keeps_def scaleInRange_def)

lemma keeps_same: "options s' = options s \<Longrightarrow> scale s' = scale s \<Longrightarrow> keeps s s'"
  by (simp add: keeps_def scaleInRange_def)

lemma keeps_handleWheel: "keeps s (handleWheel g s e)"
proof (rule keepsI)
  show "options (handleWheel g s e) = options s"
    by (simp add: handleWheel_def Let_def applyTransform_fields applyAroundPivot_fields
        stopAnimation_fields)
  assume v: "validOptions (options s)" and r: "scaleInRange s"
  have v': "validOptions (options (stopAnimation s))" using v by (simp add: stopAnimation_fields)
  show "minScale (options s) \<le> scale (handleWheel g s e)
        \<and> scale (handleWheel g s e) \<le> maxScale (options s)"
    using r clampScale_inRange[OF v']
    by (simp add: handleWheel_def Let_def applyTransform_fields applyAroundPivot_fields
        stopAnimation_fields scaleInRange_def)
qed

lemma keeps_handlePointerDown: "keeps s (handlePointerDown s e now)"
  by (rule keeps_same) (simp_all add: handlePointerDown_def stopAnimation_fields)

lemma keeps_handlePointerMove: "keeps s (handlePointerMove g s e now)"
  by (rule keeps_same)
     (simp_all add: handlePointerMove_def Let_def split_beta applyTransform_fields
        clampPosition_frame)

lemma keeps_handlePointerUp: "keeps s (handlePointerUp g s e now)"
  by (rule keeps_same)
     (simp_all add: handlePointerUp_def Let_def scheduleKinetic_frame animateElasticReturn_frame)

lemma keeps_handleDoubleTap: "keeps s (handleDoubleTap g s cX cY)"
proof (rule keepsI)
  show "options (handleDoubleTap g s cX cY) = options s"
    by (simp add: handleDoubleTap_def Let_def split_beta applyTransform_fields
        clampPosition_frame stopAnimation_fields)
  assume v: "validOptions (options s)" and r: "scaleInRange s"
  have sc: "scale (handleDoubleTap g s cX cY) = min (scale s * (3 / 2)) (maxScale (options s))"
    by (simp add: handleDoubleTap_def Let_def split_beta applyTransform_fields
        clampPosition_frame stopAnimation_fields)
  have "0 < scale s" using v r by (simp add: validOptions_def scaleInRange_def)
  then have "scale s \<le> scale s * (3 / 2)" by simp
  then show "minScale (options s) \<le> scale (handleDoubleTap g s cX cY)
        \<and> scale (handleDoubleTap g s cX cY) \<le> maxScale (options s)"
    using v r unfolding sc by (simp add: validOptions_def scaleInRange_def)
qed

lemma keeps_handleDoubleClick: "keeps s (handleDoubleClick g s e)"
  by (simp add: handleDoubleClick_def keeps_handleDoubleTap)

lemma keeps_handleTouchStart: "keeps s (handleTouchStart s e now)"
  by (rule keeps_same) (simp_all add: handleTouchStart_def split: list.splits)

lemma pinchScale_inRange:
  assumes "validOptions (options s)" and "pinchScale s d = Num v"
  shows "minScale (options s) \<le> v \<and> v \<le> maxScale (options s)"
proof -
  let ?r = "js_times (js_times (js_div d (touchStartDistance s)) (touchStartScale s))
              (pinchSpeed (options s))"
  have "js_clampScale s ?r = Num v" using assms(2) by (simp add: pinchScale_def)
  then show ?thesis
    using clampScale_inRange[OF assms(1)] assms(1)
    by (cases ?r) (auto simp: validOptions_def)
qed

lemma keeps_handleTouchMove:
  assumes "handleTouchMove g s e now = Some s'"
  shows "keeps s s'"
proof (rule keepsI)
  show "options s' = options s"
    using assms
    by (auto simp: handleTouchMove_def Let_def split_beta applyTransform_fields
        applyAroundPivot_fields clampPosition_frame pinchTouches_frame pinchScale_def
        split: list.splits if_splits jsnum.splits)
  assume v: "validOptions (options s)" and r: "scaleInRange s"
  show "minScale (options s) \<le> scale s' \<and> scale s' \<le> maxScale (options s)"
  proof (cases "isPinching s \<and> (\<exists>t0 t1. touches e = [t0, t1])")
    case True
    then obtain t0 t1 where e: "touches e = [t0, t1]" and p: "isPinching s" by blast
    let ?s2 = "(fst (pinchTouches s t0 t1))\<lparr>touchPoints := (touchPoints (fst (pinchTouches s t0 t1)))
                          (touch_identifier (fst (snd (pinchTouches s t0 t1))) \<mapsto>
                             (clientX (fst (snd (pinchTouches s t0 t1))), clientY (fst (snd (pinchTouches s t0 t1)))),
                           touch_identifier (snd (snd (pinchTouches s t0 t1))) \<mapsto>
                             (clientX (snd (snd (pinchTouches s t0 t1))), clientY (snd (snd (pinchTouches s t0 t1)))))\<rparr>"
    have o2: "options ?s2 = options s" by (simp add: pinchTouches_frame)
    obtain d where "pinchScale ?s2 d = Num (scale s')"
      using assms e p
      by (auto simp: handleTouchMove_def Let_def split_beta applyTransform_fields
          applyAroundPivot_fields split: jsnum.splits)
    then show ?thesis
      using pinchScale_inRange[of ?s2 d "scale s'"] v o2 by simp
  next
    case False
    then have "scale s' = scale s"
      using assms
      by (auto simp: handleTouchMove_def Let_def split_beta applyTransform_fields
          clampPosition_frame split: list.splits if_splits)
    then show ?thesis using r by (simp add: scaleInRange_def)
  qed
qed

lemma keeps_trans: "keeps s s' \<Longrightarrow> keeps s' s'' \<Longrightarrow> keeps s s''"
  by (auto simp: keeps_def)

lemma keeps_handleDoubleTapCheck: "keeps s (handleDoubleTapCheck g s e now)"
proof (cases "changedTouches e")
  case Nil
  then show ?thesis by (simp add: handleDoubleTapCheck_def keeps_def)
next
  case (Cons touch rest)
  have a: "keeps s ((handleDoubleTap g s cX cY)\<lparr>lastTouchEndTime := 0, lastTouchX := 0, lastTouchY := 0\<rparr>)"
    for cX cY
    using keeps_handleDoubleTap[of s g cX cY] by (auto simp: keeps_def scaleInRange_def)
  have b: "keeps s (s\<lparr>lastTouchEndTime := now, lastTouchX := tx, lastTouchY := ty\<rparr>)" for tx ty
    by (rule keeps_same) simp_all
  show ?thesis
    using Cons a b by (simp add: handleDoubleTapCheck_def Let_def)
qed

lemma keeps_handleTouchEnd: "keeps s (handleTouchEnd g s e now)"
proof -
  let ?s1 = "(case touches e of
           [] \<Rightarrow>
             if isPinching s
             then releaseGesture g
                    (s\<lparr>isPinching := False, touchIds := (None, None), touchPoints := Map.empty\<rparr>) now
             else if isPanning s
             then releaseGesture g (s\<lparr>isPanning := False\<rparr>) now
             else s
         | [touch] \<Rightarrow>
             if isPinching s
             then s\<lparr>isPinching := False, isPanning := True,
                    startClientX := clientX touch, startClientY := clientY touch,
                    startX := x s, startY := y s, didMove := False,
                    lastClientX := clientX touch, lastClientY := clientY touch,
                    lastMoveTime := now\<rparr>
             else s
         | _ \<Rightarrow> s)"
  have "options ?s1 = options s \<and> scale ?s1 = scale s"
    by (simp add: releaseGesture_def scheduleKinetic_frame animateElasticReturn_frame
        split: list.splits)
  then have "keeps s ?s1" by (simp add: keeps_same)
  then show ?thesis
    unfolding handleTouchEnd_def Let_def
    using keeps_handleDoubleTapCheck keeps_trans by blast
qed

lemma keeps_kineticTick: "keeps s (kineticTick g s)"
proof (rule keepsI)
  show "options (kineticTick g s) = options s"
    by (simp add: kineticTick_def Let_def split_beta applyTransform_fields clampPosition_frame)
  assume v: "validOptions (options s)" and r: "scaleInRange s"
  have "minScale (options s) \<le> maxScale (options s)"
    using v by (simp add: validOptions_def)
  then show "minScale (options s) \<le> scale (kineticTick g s)
        \<and> scale (kineticTick g s) \<le> maxScale (options s)"
    by (simp add: kineticTick_def Let_def split_beta applyTransform_fields clampPosition_frame)
qed

lemma keeps_stop_branch:
  "keeps s (applyTransform g (animateElasticReturn g (stopAnimation s) now) False)"
  by (rule keeps_same)
     (simp_all add: applyTransform_fields animateElasticReturn_frame stopAnimation_fields)

lemma keeps_animateKinetic: "keeps s (animateKinetic g s now)"
  by (simp add: animateKinetic_def keeps_kineticTick keeps_stop_branch)

lemma keeps_animateKineticLoop: "keeps s (animateKineticLoop g s now)"
proof -
  have "keeps (kineticTick g s) (scheduleKinetic (kineticTick g s))"
    by (rule keeps_same) (simp_all add: scheduleKinetic_frame)
  then show ?thesis
    using keeps_kineticTick[of s g] keeps_trans
    by (auto simp: animateKineticLoop_def keeps_stop_branch)
qed

lemma keeps_elasticFrame: "keeps s (elasticFrame g s now)"
  by (rule keeps_same)
     (simp_all add: elasticFrame_def Let_def split_beta applyTransform_fields
        requestAnimationFrame_def split: option.splits)

lemma keeps_transitionTimeout: "keeps s (transitionTimeout s)"
  by (rule keeps_same) (simp_all add: transitionTimeout_def)

lemma keeps_reset: "keeps s (reset g s)"
proof (rule keepsI)
  show "options (reset g s) = options s"
    by (simp add: reset_def applyTransform_fields stopAnimation_fields)
  assume v: "validOptions (options s)"
  then show "minScale (options s) \<le> scale (reset g s) \<and> scale (reset g s) \<le> maxScale (options s)"
    by (simp add: reset_def applyTransform_fields validOptions_def)
qed

lemma keeps_rotate: "keeps s (rotate g s deg)"
  by (rule keeps_same)
     (simp_all add: rotate_def Let_def split_beta applyTransform_fields clampPosition_frame
        stopAnimation_fields)

lemma keeps_setTransform: "keeps s (setTransform g s tr u)"
proof (rule keepsI)
  show "options (setTransform g s tr u) = options s"
    by (simp add: setTransform_def Let_def split_beta applyTransform_fields clampPosition_frame
        stopAnimation_fields split: option.splits)
  assume v: "validOptions (options s)" and r: "scaleInRange s"
  have v': "validOptions (options (stopAnimation s))" using v by (simp add: stopAnimation_fields)
  show "minScale (options s) \<le> scale (setTransform g s tr u)
        \<and> scale (setTransform g s tr u) \<le> maxScale (options s)"
    using r clampScale_inRange[OF v']
    by (simp add: setTransform_def Let_def split_beta applyTransform_fields clampPosition_frame
        stopAnimation_fields scaleInRange_def split: option.splits)
qed

lemma keeps_moveTo: "keeps s (moveTo g s tx ty u)"
  by (rule keeps_same)
     (simp_all add: moveTo_def Let_def split_beta applyTransform_fields clampPosition_frame
        stopAnimation_fields)

lemma keeps_moveBy: "keeps s (moveBy g s dx dy u)"
  by (rule keeps_same)
     (simp_all add: moveBy_def Let_def split_beta applyTransform_fields clampPosition_frame
        stopAnimation_fields)

lemma keeps_centerOnImagePoint: "keeps s (centerOnImagePoint g s ix iy u)"
  by (simp add: centerOnImagePoint_def split_beta keeps_moveTo)

lemma keeps_zoomTo: "keeps s (zoomTo g s sc px py u)"
proof (rule keepsI)
  show "options (zoomTo g s sc px py u) = options s"
    by (simp add: zoomTo_def Let_def split_beta applyTransform_fields clampPosition_frame
        stopAnimation_fields)
  assume v: "validOptions (options s)" and r: "scaleInRange s"
  have v': "validOptions (options (stopAnimation s))" using v by (simp add: stopAnimation_fields)
  show "minScale (options s) \<le> scale (zoomTo g s sc px py u)
        \<and> scale (zoomTo g s sc px py u) \<le> maxScale (options s)"
    using r clampScale_inRange[OF v', of sc]
    by (simp add: zoomTo_def Let_def split_beta applyTransform_fields clampPosition_frame
        stopAnimation_fields scaleInRange_def)
qed

lemma keeps_zoomToPoint: "keeps s (zoomToPoint g s cX cY d)"
proof (rule keepsI)
  show "options (zoomToPoint g s cX cY d) = options s"
    by (simp add: zoomToPoint_def Let_def split_beta applyTransform_fields clampPosition_frame)
  assume v: "validOptions (options s)" and r: "scaleInRange s"
  show "minScale (options s) \<le> scale (zoomToPoint g s cX cY d)
        \<and> scale (zoomToPoint g s cX cY d) \<le> maxScale (options s)"
    using r clampScale_inRange[OF v, of "scale s * d"]
    by (simp add: zoomToPoint_def Let_def split_beta applyTransform_fields clampPosition_frame
        scaleInRange_def)
qed

lemma keeps_step:
  assumes "step g now s e = Some s'"
  shows "keeps s s'"
  using assms
  by (cases e)
     (auto simp: keeps_handleWheel keeps_handlePointerDown keeps_handlePointerMove
        keeps_handlePointerUp keeps_handleDoubleClick keeps_handleTouchStart
        keeps_handleTouchMove keeps_handleTouchEnd keeps_animateKinetic
        keeps_animateKineticLoop keeps_elasticFrame keeps_transitionTimeout keeps_reset
        keeps_rotate keeps_setTransform keeps_moveTo keeps_moveBy keeps_zoomTo
        keeps_zoomToPoint keeps_centerOnImagePoint)

lemma construct_fields:
  "options (construct this opts g) = opts"
  "scale (construct this opts g) = initialScale opts"
  by (simp_all add: construct_def init_def applyTransform_fields)

lemma reachable_options_scale:
  assumes "reachable opts s" and "validOptions opts"
  shows "options s = opts \<and> scaleInRange s"
  using assms
proof (induction rule: reachable.induct)
  case (constructed this g)
  then show ?case
    by (simp add: construct_fields scaleInRange_def validOptions_def)
next
  case (stepped s g now e s')
  then show ?case
    using keeps_step[of g now s e s'] by (auto simp: keeps_def)
qed

text \<open>
  C4, as amended. For options with \<open>0 < minScale \<le> initialScale \<le> maxScale\<close>, every
  state that the instance reaches (after the construction and after every wheel,
  pointer, touch, pinch, double-tap, animation frame, reset, rotate, setTransform,
  moveTo, moveBy, zoomTo, zoomToPoint or centerOnImagePoint step) has the options it
  was constructed with and a scale between \<open>minScale\<close> and \<open>maxScale\<close>. The steps are
  those that write numbers: a pinch move that computes 0 / 0 writes \<open>NaN\<close> into the scale
  and is no step.
\<close>

theorem scale_range_invariant:
  assumes "0 < minScale opts" and "minScale opts \<le> initialScale opts"
    and "initialScale opts \<le> maxScale opts" and "reachable opts s"
  shows "options s = opts \<and> minScale opts \<le> scale s \<and> scale s \<le> maxScale opts"
proof -
  have "validOptions opts" using assms(1-3) by (simp add: validOptions_def)
  then show ?thesis
    using reachable_options_scale[OF assms(4)] by (auto simp: scaleInRange_def)
qed

theorem scale_range_invariant_witness:
  "0 < minScale (resolveOptions noOptions)
   \<and> minScale (resolveOptions noOptions) \<le> initialScale (resolveOptions noOptions)
   \<and> initialScale (resolveOptions noOptions) \<le> maxScale (resolveOptions noOptions)
   \<and> reachable (resolveOptions noOptions)
         (handleWheel demoLayout (newImagePanZoom noOptions demoLayout) wheelUp)
   \<and> options (handleWheel demoLayout (newImagePanZoom noOptions demoLayout) wheelUp)
       = resolveOptions noOptions
   \<and> minScale (resolveOptions noOptions)
       \<le> scale (handleWheel demoLayout (newImagePanZoom noOptions demoLayout) wheelUp)
   \<and> scale (handleWheel demoLayout (newImagePanZoom noOptions demoLayout) wheelUp)
       \<le> maxScale (resolveOptions noOptions)"
proof -
  let ?opts = "resolveOptions noOptions"
  have v: "0 < minScale ?opts" "minScale ?opts \<le> initialScale ?opts"
      "initialScale ?opts \<le> maxScale ?opts"
    by (simp_all add: defaults)
  have r0: "reachable ?opts (newImagePanZoom noOptions demoLayout)"
    unfolding newImagePanZoom_def by (rule reachable.constructed)
  have "step demoLayout 0 (newImagePanZoom noOptions demoLayout) (Wheel wheelUp)
          = Some (handleWheel demoLayout (newImagePanZoom noOptions demoLayout) wheelUp)"
    by simp
  then have r1: "reachable ?opts (handleWheel demoLayout (newImagePanZoom noOptions demoLayout) wheelUp)"
    by (rule reachable.stepped[OF r0])
  show ?thesis
    using scale_range_invariant[OF v r1] v r1 by blast
qed

text \<open>
  C4 as stated fails: constructed with \<open>initialScale = 10\<close> and the other options at
  their defaults, the instance has the scale 10, above \<open>maxScale = 3\<close>.
\<close>

theorem scale_range_invariant_counterexample:
  "reachable (resolveOptions largeInitialScale) (newImagePanZoom largeInitialScale demoLayout)
   \<and> scale (newImagePanZoom largeInitialScale demoLayout) = 10
   \<and> maxScale (options (newImagePanZoom largeInitialScale demoLayout)) = 3"
proof -
  have "reachable (resolveOptions largeInitialScale) (newImagePanZoom largeInitialScale demoLayout)"
    unfolding newImagePanZoom_def by (rule reachable.constructed)
  then show ?thesis
    by (simp add: newImagePanZoom_def construct_fields resolveOptions_def largeInitialScale_def
        noOptions_def nullish_def)
qed

subsection \<open>The elastic offsets of the reachable states\<close>

text \<open>
  Every operation that changes an elastic offset ends in \<open>applyTransform\<close>, so both
  offsets are zero in every reachable state; there \<open>clampPosition\<close> returns exactly 0 on
  an axis that fits, in both variants.
\<close>

lemma offsetsZero_applyTransform: "offsetsZero (applyTransform g s u)"
  by (simp add: offsetsZero_def applyTransform_fields)

lemma stopAnimation_offsets:
  "elasticX (stopAnimation s) = elasticX s" "elasticY (stopAnimation s) = elasticY s"
  by (simp_all add: stopAnimation_def Let_def)

lemma scheduleKinetic_offsets:
  "elasticX (scheduleKinetic s) = elasticX s" "elasticY (scheduleKinetic s) = elasticY s"
  by (simp_all add: scheduleKinetic_def requestAnimationFrame_def)

lemma animateElasticReturn_offsets:
  "elasticX (animateElasticReturn g s now) = elasticX s"
  "elasticY (animateElasticReturn g s now) = elasticY s"
  by (simp_all add: animateElasticReturn_def Let_def hard_bounds requestAnimationFrame_def
      stopAnimation_offsets)

lemma offsetsZero_handleWheel: "offsetsZero s \<Longrightarrow> offsetsZero (handleWheel g s e)"
  by (simp add: handleWheel_def Let_def offsetsZero_applyTransform)
     (simp add: offsetsZero_def stopAnimation_offsets)

lemma offsetsZero_handlePointerDown: "offsetsZero s \<Longrightarrow> offsetsZero (handlePointerDown s e now)"
  by (simp add: handlePointerDown_def offsetsZero_def stopAnimation_offsets)

lemma offsetsZero_handlePointerMove: "offsetsZero s \<Longrightarrow> offsetsZero (handlePointerMove g s e now)"
  by (simp add: handlePointerMove_def Let_def split_beta offsetsZero_applyTransform)

lemma offsetsZero_handlePointerUp: "offsetsZero s \<Longrightarrow> offsetsZero (handlePointerUp g s e now)"
  by (simp add: handlePointerUp_def Let_def offsetsZero_def scheduleKinetic_offsets
      animateElasticReturn_offsets)

lemma offsetsZero_handleDoubleTap: "offsetsZero (handleDoubleTap g s cX cY)"
  by (simp add: handleDoubleTap_def Let_def split_beta offsetsZero_applyTransform)

lemma offsetsZero_handleTouchStart: "offsetsZero s \<Longrightarrow> offsetsZero (handleTouchStart s e now)"
  by (simp add: handleTouchStart_def offsetsZero_def split: list.splits)

lemma offsetsZero_handleTouchMove:
  "offsetsZero s \<Longrightarrow> handleTouchMove g s e now = Some s' \<Longrightarrow> offsetsZero s'"
  by (auto simp: handleTouchMove_def Let_def split_beta offsetsZero_applyTransform
      split: list.splits if_splits jsnum.splits)

lemma offsetsZero_handleDoubleTapCheck:
  "offsetsZero s \<Longrightarrow> offsetsZero (handleDoubleTapCheck g s e now)"
  using offsetsZero_handleDoubleTap[of g s]
  by (simp add: handleDoubleTapCheck_def Let_def offsetsZero_def split: list.splits)

lemma offsetsZero_releaseGesture: "offsetsZero s \<Longrightarrow> offsetsZero (releaseGesture g s now)"
  by (simp add: releaseGesture_def offsetsZero_def scheduleKinetic_offsets
      animateElasticReturn_offsets)

lemma offsetsZero_handleTouchEnd: "offsetsZero s \<Longrightarrow> offsetsZero (handleTouchEnd g s e now)"
proof -
  assume z: "offsetsZero s"
  have a: "offsetsZero (releaseGesture g
             (s\<lparr>isPinching := False, touchIds := (None, None), touchPoints := Map.empty\<rparr>) now)"
    by (rule offsetsZero_releaseGesture) (use z in \<open>simp add: offsetsZero_def\<close>)
  have b: "offsetsZero (releaseGesture g (s\<lparr>isPanning := False\<rparr>) now)"
    by (rule offsetsZero_releaseGesture) (use z in \<open>simp add: offsetsZero_def\<close>)
  have c: "offsetsZero (s\<lparr>isPinching := False, isPanning := True,
                    startClientX := cx, startClientY := cy,
                    startX := x s, startY := y s, didMove := False,
                    lastClientX := cx, lastClientY := cy,
                    lastMoveTime := now\<rparr>)" for cx cy
    using z by (simp add: offsetsZero_def)
  show ?thesis
    unfolding handleTouchEnd_def Let_def
    by (rule offsetsZero_handleDoubleTapCheck) (use z a b c in \<open>simp split: list.splits\<close>)
qed

lemma offsetsZero_animateKinetic: "offsetsZero (animateKinetic g s now)"
  by (simp add: animateKinetic_def kineticTick_def Let_def split_beta offsetsZero_applyTransform)

lemma offsetsZero_animateKineticLoop: "offsetsZero (animateKineticLoop g s now)"
  by (simp add: animateKineticLoop_def kineticTick_def Let_def split_beta
      offsetsZero_applyTransform)
     (simp add: offsetsZero_def scheduleKinetic_offsets applyTransform_fields)

lemma offsetsZero_elasticFrame: "offsetsZero s \<Longrightarrow> offsetsZero (elasticFrame g s now)"
  by (simp add: elasticFrame_def Let_def split_beta offsetsZero_def applyTransform_fields
      requestAnimationFrame_def split: option.splits)

lemma offsetsZero_zoomTo: "offsetsZero s \<Longrightarrow> offsetsZero (zoomTo g s sc px py u)"
  by (simp add: zoomTo_def Let_def split_beta offsetsZero_applyTransform)
     (simp add: offsetsZero_def stopAnimation_offsets)

lemma offsetsZero_zoomToPoint: "offsetsZero s \<Longrightarrow> offsetsZero (zoomToPoint g s cX cY d)"
  by (simp add: zoomToPoint_def Let_def split_beta offsetsZero_applyTransform)

lemma offsetsZero_transitionTimeout: "offsetsZero s \<Longrightarrow> offsetsZero (transitionTimeout s)"
  by (simp add: transitionTimeout_def offsetsZero_def)

lemma offsetsZero_calls:
  "offsetsZero (reset g s)" "offsetsZero (rotate g s deg)" "offsetsZero (setTransform g s tr u)"
  "offsetsZero (moveTo g s tx ty u)" "offsetsZero (moveBy g s dx dy u)"
  "offsetsZero (centerOnImagePoint g s ix iy u)"
  by (simp_all add: reset_def rotate_def setTransform_def moveTo_def moveBy_def
      centerOnImagePoint_def Let_def split_beta offsetsZero_applyTransform)

lemma offsetsZero_step:
  assumes "offsetsZero s" and "step g now s e = Some s'"
  shows "offsetsZero s'"
proof (cases e)
  case (TouchMove ev)
  then show ?thesis using assms offsetsZero_handleTouchMove by simp
qed (use assms in \<open>auto simp: offsetsZero_handleWheel offsetsZero_handlePointerDown
        offsetsZero_handlePointerMove offsetsZero_handlePointerUp offsetsZero_handleDoubleTap
        handleDoubleClick_def offsetsZero_handleTouchStart offsetsZero_handleTouchEnd
        offsetsZero_animateKinetic offsetsZero_animateKineticLoop offsetsZero_elasticFrame
        offsetsZero_zoomTo offsetsZero_zoomToPoint offsetsZero_transitionTimeout
        offsetsZero_calls\<close>)

lemma reachable_offsetsZero:
  assumes "reachable opts s"
  shows "offsetsZero s"
  using assms
proof (induction rule: reachable.induct)
  case (constructed this g)
  then show ?case by (simp add: construct_def init_def offsetsZero_applyTransform)
next
  case (stepped s g now e s')
  then show ?case using offsetsZero_step by blast
qed

lemma reachable_fitting_axis_zero:
  assumes "reachable opts s"
  shows "(contentWidth (getSizes g s) \<le> containerWidth (getSizes g s) \<longrightarrow>
            fst (snd (clampPosition g s nextX nextY useElastic)) = 0)
       \<and> (contentHeight (getSizes g s) \<le> containerHeight (getSizes g s) \<longrightarrow>
            snd (snd (clampPosition g s nextX nextY useElastic)) = 0)"
proof -
  have z: "elasticX s = 0" "elasticY s = 0"
    using reachable_offsetsZero[OF assms] by (simp_all add: offsetsZero_def)
  have fx: "fitsHorizontally (getSizes g s)
              \<Longrightarrow> minX (getSizes g s) = 0 \<and> maxX (getSizes g s) = 0"
    by (simp add: getSizes_fields(4,5))
  have fy: "fitsVertically (getSizes g s)
              \<Longrightarrow> minY (getSizes g s) = 0 \<and> maxY (getSizes g s) = 0"
    by (simp add: getSizes_fields(6,7))
  show ?thesis
    unfolding getSizes_fields(1,2)[symmetric]
    using fx fy z
    by (auto simp: clampPosition_def calculateBoundaries_def Let_def)
qed

end
